theory Spec2Isabelle
  imports Complex_Main "HOL-Library.Word" "HOL-Library.Signed_Division" "HOL-Library.AList"
begin

section \<open>Exceptions of the emitter as values\<close>

text \<open>
  Every \<^verbatim>\<open>raise\<close>, failed \<^verbatim>\<open>assert\<close> and failing built-in of
  \<^verbatim>\<open>codegen.py\<close> is a value of type \<open>error\<close>; a function that may raise
  returns \<open>error + 'a\<close> with \<open>Inl\<close> for the exception.
\<close>

datatype error =
    CodegenError string
  | ValidationError string
  | NotImplementedError string
  | AssertionError string
  | ValueError string
  | KeyError
  | IndexError
  | TypeError
  | AttributeError string
  | RecursionError

section \<open>Symbolic index expressions\<close>

text \<open>
  Index symbols are named symbols, the lane symbols \<^verbatim>\<open>$IOTAn\<close> made by
  \<^verbatim>\<open>IndexingContext.iota\<close> and the iterator symbols of an index mapping.
\<close>

datatype IndexSymbol = index_symbol string | IOTA nat | iterator nat

text \<open>
  The expression tree walked by \<^verbatim>\<open>gen_sympy_index\<close>: one constructor per
  \<^verbatim>\<open>case\<close> of its \<^verbatim>\<open>match\<close>, and \<open>Other\<close> for every class that
  reaches \<^verbatim>\<open>case _\<close>. \<open>Add\<close> and \<open>Mul\<close> are n-ary (the source reads
  \<^verbatim>\<open>term.args\<close>); \<open>Mod\<close>, \<open>StrictLessThan\<close> and \<open>And\<close> are
  binary (the source pops two operands). The tree is taken as it is given: the automatic
  canonicalisation of the algebra library (flattening, argument order, constant folding)
  is outside this development.
\<close>

datatype expr =
    Symbol IndexSymbol
  | Integer int
  | Rational int int
  | Mul "expr list"
  | Add "expr list"
  | Mod expr expr
  | Floor expr
  | Ceiling expr
  | StrictLessThan expr expr
  | And expr expr
  | BooleanFalse
  | BooleanTrue
  | UnevaluatedExpr expr
  | Other string "expr list"

fun free_symbols :: "expr \<Rightarrow> IndexSymbol list" where
  "free_symbols (Symbol s) = [s]"
| "free_symbols (Integer n) = []"
| "free_symbols (Rational p q) = []"
| "free_symbols (Mul es) = concat (map free_symbols es)"
| "free_symbols (Add es) = concat (map free_symbols es)"
| "free_symbols (Mod a b) = free_symbols a @ free_symbols b"
| "free_symbols (Floor a) = free_symbols a"
| "free_symbols (Ceiling a) = free_symbols a"
| "free_symbols (StrictLessThan a b) = free_symbols a @ free_symbols b"
| "free_symbols (And a b) = free_symbols a @ free_symbols b"
| "free_symbols BooleanFalse = []"
| "free_symbols BooleanTrue = []"
| "free_symbols (UnevaluatedExpr a) = free_symbols a"
| "free_symbols (Other nm es) = concat (map free_symbols es)"

text \<open>
  \<^verbatim>\<open>expr.subs([(sym, e)])\<close> for one pair, and for a list of pairs applied in order.
  The substitution replaces symbols and leaves the rest of the tree as it is. The algebra
  library also evaluates again the nodes it has rewritten (a remainder of two numbers
  becomes a number), which is outside this development: the two agree where no symbol of
  the expression is replaced, and where the replacement leaves nothing to evaluate.
\<close>

fun subs1 :: "IndexSymbol \<Rightarrow> expr \<Rightarrow> expr \<Rightarrow> expr" where
  "subs1 x r (Symbol s) = (if s = x then r else Symbol s)"
| "subs1 x r (Integer n) = Integer n"
| "subs1 x r (Rational p q) = Rational p q"
| "subs1 x r (Mul es) = Mul (map (subs1 x r) es)"
| "subs1 x r (Add es) = Add (map (subs1 x r) es)"
| "subs1 x r (Mod a b) = Mod (subs1 x r a) (subs1 x r b)"
| "subs1 x r (Floor a) = Floor (subs1 x r a)"
| "subs1 x r (Ceiling a) = Ceiling (subs1 x r a)"
| "subs1 x r (StrictLessThan a b) = StrictLessThan (subs1 x r a) (subs1 x r b)"
| "subs1 x r (And a b) = And (subs1 x r a) (subs1 x r b)"
| "subs1 x r BooleanFalse = BooleanFalse"
| "subs1 x r BooleanTrue = BooleanTrue"
| "subs1 x r (UnevaluatedExpr a) = UnevaluatedExpr (subs1 x r a)"
| "subs1 x r (Other nm es) = Other nm (map (subs1 x r) es)"

fun subs :: "(IndexSymbol \<times> expr) list \<Rightarrow> expr \<Rightarrow> expr" where
  "subs [] e = e"
| "subs ((x, r) # ps) e = subs ps (subs1 x r e)"

text \<open>
  \<^verbatim>\<open>sympy.postorder_traversal(expr)\<close>: the subtrees of every argument, left to
  right, then the node itself.
\<close>

fun postorder_traversal :: "expr \<Rightarrow> expr list" where
  "postorder_traversal (Symbol s) = [Symbol s]"
| "postorder_traversal (Integer n) = [Integer n]"
| "postorder_traversal (Rational p q) = [Rational p q]"
| "postorder_traversal (Mul es) = concat (map postorder_traversal es) @ [Mul es]"
| "postorder_traversal (Add es) = concat (map postorder_traversal es) @ [Add es]"
| "postorder_traversal (Mod a b) = postorder_traversal a @ postorder_traversal b @ [Mod a b]"
| "postorder_traversal (Floor a) = postorder_traversal a @ [Floor a]"
| "postorder_traversal (Ceiling a) = postorder_traversal a @ [Ceiling a]"
| "postorder_traversal (StrictLessThan a b) =
     postorder_traversal a @ postorder_traversal b @ [StrictLessThan a b]"
| "postorder_traversal (And a b) = postorder_traversal a @ postorder_traversal b @ [And a b]"
| "postorder_traversal BooleanFalse = [BooleanFalse]"
| "postorder_traversal BooleanTrue = [BooleanTrue]"
| "postorder_traversal (UnevaluatedExpr a) = postorder_traversal a @ [UnevaluatedExpr a]"
| "postorder_traversal (Other nm es) = concat (map postorder_traversal es) @ [Other nm es]"

section \<open>The target IR\<close>

datatype ir_type =
    IndexType
  | IntegerType nat
  | FloatType nat
  | VectorType "nat list" ir_type
  | MemRefType "nat list" ir_type

abbreviation F32Type :: ir_type where
  "F32Type \<equiv> FloatType 32"

datatype Attribute =
    IntegerAttr ir_type int
  | FloatAttr ir_type int
  | DenseElementsAttr "Attribute list"

text \<open>
  An SSA value is represented by its definition: a block argument or hardware id, or the
  operation that produces it together with its operands. Loops are numbered; the values
  a loop defines carry its number.
\<close>

datatype Value =
    BlockArgument nat ir_type
  | WorkgroupId nat
  | ThreadId nat
  | InductionVariable nat
  | InnerIterArg nat nat ir_type
  | ForResult nat nat "ir_type list"
  | Constant ir_type Attribute
  | Splat ir_type Value
  | AddI Value Value
  | MulI Value Value
  | DivSI Value Value
  | CeilDivSI Value Value
  | RemSI Value Value
  | CmpI_slt Value Value
  | AndI Value Value
  | ConstantMask ir_type "nat list"
  | Load ir_type Value "Value list"
  | MaskedLoad ir_type Value "Value list" Value Value
  | Gather ir_type Value "Value list" Value Value Value
  | Extract Value "nat list"
  | Insert Value Value "nat list"
  | ExtF ir_type Value
  | TruncF ir_type Value
  | ExtSI ir_type Value
  | ExtUI ir_type Value
  | ShuffleXor Value Value Value
  | Broadcast ir_type Value

text \<open>Operations that write memory, synchronise or carry a region, in emission order.\<close>

datatype Operation =
    ValueOp Value
  | StoreOp Value Value "Value list"
  | MaskedStoreOp Value "Value list" Value Value
  | ScatterOp Value "Value list" Value Value Value
  | ForOp nat Value Value Value "Value list" "Operation list" "Value list"
  | LdsBarrierOp

fun mask_type :: "ir_type \<Rightarrow> ir_type" where
  "mask_type (VectorType shape t) = VectorType shape (IntegerType 1)"
| "mask_type t = IntegerType 1"

text \<open>\<^verbatim>\<open>value.type\<close>: the result type of the defining operation.\<close>

fun type_of :: "Value \<Rightarrow> ir_type" where
  "type_of (BlockArgument n t) = t"
| "type_of (WorkgroupId n) = IndexType"
| "type_of (ThreadId n) = IndexType"
| "type_of (InductionVariable l) = IndexType"
| "type_of (InnerIterArg l i t) = t"
| "type_of (ForResult l i ts) = (if i < length ts then ts ! i else IndexType)"
| "type_of (Constant t a) = t"
| "type_of (Splat t v) = t"
| "type_of (AddI a b) = type_of a"
| "type_of (MulI a b) = type_of a"
| "type_of (DivSI a b) = type_of a"
| "type_of (CeilDivSI a b) = type_of a"
| "type_of (RemSI a b) = type_of a"
| "type_of (CmpI_slt a b) = mask_type (type_of a)"
| "type_of (AndI a b) = type_of a"
| "type_of (ConstantMask t dims) = t"
| "type_of (Load t base idx) = t"
| "type_of (MaskedLoad t base idx msk passthru) = t"
| "type_of (Gather t base idx offs msk passthru) = t"
| "type_of (Extract v pos) =
     (case type_of v of
        VectorType shape t \<Rightarrow>
          (if length shape \<le> length pos then t else VectorType (drop (length pos) shape) t)
      | t \<Rightarrow> t)"
| "type_of (Insert src dest pos) = type_of dest"
| "type_of (ExtF t v) = t"
| "type_of (TruncF t v) = t"
| "type_of (ExtSI t v) = t"
| "type_of (ExtUI t v) = t"
| "type_of (ShuffleXor v off w) = type_of v"
| "type_of (Broadcast t v) = t"

fun is_float_type :: "ir_type \<Rightarrow> bool" where
  "is_float_type (FloatType w) = True"
| "is_float_type t = False"

fun is_integer_like_type :: "ir_type \<Rightarrow> bool" where
  "is_integer_like_type IndexType = True"
| "is_integer_like_type (IntegerType w) = True"
| "is_integer_like_type t = False"

fun type_width :: "ir_type \<Rightarrow> nat" where
  "type_width (IntegerType w) = w"
| "type_width (FloatType w) = w"
| "type_width t = 0"

fun is_vector_type :: "ir_type \<Rightarrow> bool" where
  "is_vector_type (VectorType shape t) = True"
| "is_vector_type t = False"

fun vector_shape :: "ir_type \<Rightarrow> nat list" where
  "vector_shape (VectorType shape t) = shape"
| "vector_shape t = []"

fun element_type :: "ir_type \<Rightarrow> ir_type" where
  "element_type (VectorType shape t) = t"
| "element_type (MemRefType shape t) = t"
| "element_type t = t"

text \<open>
  \<^verbatim>\<open>get_constant_attr\<close>. The Python value is an integer in every use modelled
  here (\<open>0\<close> and \<open>1\<close>); the float attribute keeps it unconverted.
\<close>

definition get_constant_attr :: "int \<Rightarrow> ir_type \<Rightarrow> error + Attribute" where
  "get_constant_attr v t =
     (if is_integer_like_type t then Inr (IntegerAttr t v)
      else if is_float_type t then Inr (FloatAttr t v)
      else Inl (CodegenError ''Cannot create a constant attribute for type''))"

section \<open>Graph nodes, index mappings, constraints\<close>

datatype IndexSequence = IndexSequence (start: expr) (seq_size: expr) (seq_stride: expr) | IndexExpr expr

text \<open>
  Modelled from the spec: \<^verbatim>\<open>IndexMapping\<close> (its class is not part of the sources
  at hand) holds an iterator count and per-axis input and output expressions, with an
  identity predicate per side: a side is identity when its expressions are exactly the
  iterators, in order.
\<close>

record IndexMapping =
  num_iterators :: nat
  input_mapping :: "(IndexSymbol \<times> expr) list"
  output_mapping :: "(IndexSymbol \<times> expr) list"

definition iters :: "IndexMapping \<Rightarrow> IndexSymbol list" where
  "iters m = map iterator [0 ..< num_iterators m]"

definition is_identity_side :: "IndexSymbol list \<Rightarrow> (IndexSymbol \<times> expr) list \<Rightarrow> bool" where
  "is_identity_side its mp = (map snd mp = map Symbol its)"

definition is_input_identity :: "IndexMapping \<Rightarrow> bool" where
  "is_input_identity m = is_identity_side (iters m) (input_mapping m)"

definition is_output_identity :: "IndexMapping \<Rightarrow> bool" where
  "is_output_identity m = is_identity_side (iters m) (output_mapping m)"

definition is_identity :: "IndexMapping \<Rightarrow> bool" where
  "is_identity m = (is_input_identity m \<and> is_output_identity m)"

definition input_shape :: "IndexMapping \<Rightarrow> IndexSymbol list" where
  "input_shape m = map fst (input_mapping m)"

definition output_shape :: "IndexMapping \<Rightarrow> IndexSymbol list" where
  "output_shape m = map fst (output_mapping m)"

text \<open>
  \<^verbatim>\<open>map_input_indices(symbols)\<close> and \<^verbatim>\<open>map_output_indices(symbols)\<close>: the
  side's expressions in the order of the given shape; a dimension the side does not have
  is a \<^verbatim>\<open>KeyError\<close>.
\<close>

fun map_indices :: "(IndexSymbol \<times> expr) list \<Rightarrow> IndexSymbol list \<Rightarrow> error + expr list" where
  "map_indices mp [] = Inr []"
| "map_indices mp (d # ds) =
     (case map_of mp d of
        None \<Rightarrow> Inl KeyError
      | Some e \<Rightarrow> (case map_indices mp ds of Inl err \<Rightarrow> Inl err | Inr es \<Rightarrow> Inr (e # es)))"

definition map_input_indices :: "IndexMapping \<Rightarrow> IndexSymbol list \<Rightarrow> error + expr list" where
  "map_input_indices m shape = map_indices (input_mapping m) shape"

definition map_output_indices :: "IndexMapping \<Rightarrow> IndexSymbol list \<Rightarrow> error + expr list" where
  "map_output_indices m shape = map_indices (output_mapping m) shape"

text \<open>
  A graph node with the attributes the emitter reads: its identity (the key of the value
  cache), \<^verbatim>\<open>op\<close>, \<^verbatim>\<open>tkw_op_name\<close>, \<^verbatim>\<open>args\<close>, the optional
  \<^verbatim>\<open>index\<close> and \<^verbatim>\<open>count\<close> attributes, and what
  \<^verbatim>\<open>get_custom(node)\<close> answers: the symbolic shape of its type, the address space
  of its memory type and whether a placeholder is a loop-carried argument.
\<close>

datatype py_arg =
    ArgNode node
  | ArgInt int
  | ArgNone
  | ArgSymbol IndexSymbol
  | ArgStr string
  | ArgMapping IndexMapping
  | ArgTuple "py_arg list"
and node =
  Node (nid: nat) (node_op: string) (tkw_op_name: string) (args: "py_arg list")
       (node_index: "(IndexSymbol \<times> IndexSequence) list option") (node_count: "int option")
       (symbolic_shape: "IndexSymbol list") (address_space: IndexSymbol) (is_iter_arg: bool)

definition SHARED_ADDRESS_SPACE :: IndexSymbol where
  "SHARED_ADDRESS_SPACE = index_symbol ''$SHARED_ADDRESS_SPACE''"

datatype Constraint =
    TilingConstraint (tiling_dim: IndexSymbol) (induction_var: IndexSymbol)
  | WorkgroupConstraint IndexSymbol expr nat
  | WaveConstraint IndexSymbol expr
  | HardwareConstraint nat

fun is_TilingConstraint :: "Constraint \<Rightarrow> bool" where
  "is_TilingConstraint (TilingConstraint d iv) = True"
| "is_TilingConstraint c = False"

section \<open>The emitter\<close>

text \<open>
  \<^verbatim>\<open>IndexingContext\<close>: the frozen substitutions and the special (lane vector)
  substitutions.
\<close>

record IndexingContext =
  idxc_subs :: "(IndexSymbol \<times> int) list"
  special_subs :: "(IndexSymbol \<times> int list) list"

text \<open>
  The state the emitter works on. \<open>node_values\<close> is the class attribute
  \<^verbatim>\<open>WaveEmitter._node_values\<close> (declared \<^verbatim>\<open>ClassVar\<close>, one dictionary for
  every instance); the fields from \<open>root_args\<close> to \<open>dynamic_symbols\<close> are the
  instance's constructor arguments; \<open>workgroup_ids\<close> to \<open>dynamic_dims\<close> are set
  by \<^verbatim>\<open>emit_program_invariants\<close>; \<open>ops\<close> is the block at the current
  insertion point, \<open>next_loop\<close> numbers the loops, and \<open>idxc\<close> is
  \<^verbatim>\<open>IndexingContext.current()\<close>.
\<close>

record WaveEmitter =
  node_values :: "(nat \<times> Value list) list"
  root_args :: "Value list"
  resolve_by_reference :: "nat \<Rightarrow> error + Value"
  root_graph :: "node list"
  subgraphs :: "(string \<times> node list) list"
  constraints :: "Constraint list"
  dynamic_symbols :: "IndexSymbol list"
  workgroup_ids :: "Value list"
  thread_ids :: "Value list"
  induction_vars :: "(IndexSymbol \<times> Value) list"
  dynamic_dims :: "(IndexSymbol \<times> Value) list"
  ops :: "Operation list"
  next_loop :: nat
  idxc :: IndexingContext

text \<open>
  \<^verbatim>\<open>WaveEmitter(root_sig, trace, constraints, dynamic_symbols)\<close>: a new instance.
  The class attribute \<^verbatim>\<open>_node_values\<close> is not an argument of the constructor and
  \<^verbatim>\<open>__post_init__\<close> only sets the insertion point, so the instance sees the
  dictionary of the class as it is: \<open>cls_node_values\<close>.
\<close>

definition new_WaveEmitter ::
  "(nat \<times> Value list) list \<Rightarrow> IndexingContext \<Rightarrow> Value list \<Rightarrow> (nat \<Rightarrow> error + Value) \<Rightarrow>
   node list \<Rightarrow> (string \<times> node list) list \<Rightarrow> Constraint list \<Rightarrow> IndexSymbol list \<Rightarrow> WaveEmitter" where
  "new_WaveEmitter cls_node_values ctx entry_args resolve g subs_g cs dyn_syms =
     \<lparr> node_values = cls_node_values, root_args = entry_args, resolve_by_reference = resolve,
       root_graph = g, subgraphs = subs_g, constraints = cs, dynamic_symbols = dyn_syms,
       workgroup_ids = [], thread_ids = [], induction_vars = [], dynamic_dims = [],
       ops = [], next_loop = 0, idxc = ctx \<rparr>"

text \<open>
  \<^verbatim>\<open>emit_program_invariants\<close>: the ids, empty induction variables, and one dynamic
  dimension per entry-block argument of index type; \<^verbatim>\<open>next(symbol_iterator)\<close> on an
  exhausted iterator raises \<^verbatim>\<open>StopIteration\<close>, modelled as \<open>IndexError\<close>.
\<close>

fun bind_dynamic_dims ::
  "Value list \<Rightarrow> IndexSymbol list \<Rightarrow> (IndexSymbol \<times> Value) list \<Rightarrow> error + (IndexSymbol \<times> Value) list" where
  "bind_dynamic_dims [] syms acc = Inr acc"
| "bind_dynamic_dims (a # as) syms acc =
     (if type_of a = IndexType then
        (case syms of
           [] \<Rightarrow> Inl IndexError
         | s # ss \<Rightarrow> bind_dynamic_dims as ss (AList.update s a acc))
      else bind_dynamic_dims as syms acc)"

definition emit_program_invariants :: "WaveEmitter \<Rightarrow> error + WaveEmitter" where
  "emit_program_invariants emitter =
     (case bind_dynamic_dims (root_args emitter) (dynamic_symbols emitter) [] of
        Inl e \<Rightarrow> Inl e
      | Inr dd \<Rightarrow>
          Inr (emitter\<lparr> workgroup_ids := [WorkgroupId 0, WorkgroupId 1, WorkgroupId 2],
                        thread_ids := [ThreadId 0, ThreadId 1, ThreadId 2],
                        induction_vars := [],
                        dynamic_dims := dd \<rparr>))"

text \<open>
  \<^verbatim>\<open>lookup_node_values\<close>: the cached values, or, when the node has none, the value
  from \<^verbatim>\<open>resolve_by_reference\<close>, which is then cached.
\<close>

definition lookup_node_values :: "WaveEmitter \<Rightarrow> node \<Rightarrow> error + (Value list \<times> WaveEmitter)" where
  "lookup_node_values emitter n =
     (case map_of (node_values emitter) (nid n) of
        Some values \<Rightarrow> Inr (values, emitter)
      | None \<Rightarrow>
          (case resolve_by_reference emitter (nid n) of
             Inl e \<Rightarrow> Inl e
           | Inr v \<Rightarrow>
               Inr ([v], emitter\<lparr> node_values := AList.update (nid n) [v] (node_values emitter) \<rparr>)))"

definition bind_node_proxy :: "WaveEmitter \<Rightarrow> node \<Rightarrow> Value \<Rightarrow> WaveEmitter" where
  "bind_node_proxy emitter n proxy =
     emitter\<lparr> node_values := AList.update (nid n) [proxy] (node_values emitter) \<rparr>"

definition bind_node_proxies :: "WaveEmitter \<Rightarrow> node \<Rightarrow> Value list \<Rightarrow> WaveEmitter" where
  "bind_node_proxies emitter n proxies =
     emitter\<lparr> node_values := AList.update (nid n) proxies (node_values emitter) \<rparr>"

text \<open>
  Modelled from the spec: the cast helpers \<^verbatim>\<open>cast_py_value\<close>,
  \<^verbatim>\<open>cast_vector\<close> and \<^verbatim>\<open>cast_kernel_buffer\<close> belong to the
  signature-binding collaborator and are not part of the sources at hand. A node operand
  is resolved through \<^verbatim>\<open>lookup_node_values\<close> and must have exactly one value; an
  integer literal becomes a constant of the requested element type (index type when none
  is requested); a kernel buffer must have a memref type.
\<close>

definition cast_py_value ::
  "WaveEmitter \<Rightarrow> py_arg \<Rightarrow> ir_type option \<Rightarrow> error + (Value \<times> WaveEmitter)" where
  "cast_py_value emitter a elt =
     (case a of
        ArgNode n \<Rightarrow>
          (case lookup_node_values emitter n of
             Inl KeyError \<Rightarrow> Inl (CodegenError ''Node has no IR Value'')
           | Inl e \<Rightarrow> Inl e
           | Inr (vs, emitter1) \<Rightarrow>
               (case vs of
                  [v] \<Rightarrow> Inr (v, emitter1)
                | _ \<Rightarrow> Inl (AssertionError ''Expected exactly one value for node'')))
      | ArgInt i \<Rightarrow>
          (let t = (case elt of None \<Rightarrow> IndexType | Some t \<Rightarrow> t)
           in Inr (Constant t (IntegerAttr t i), emitter))
      | _ \<Rightarrow> Inl (CodegenError ''Cannot convert value to an IR value''))"

definition cast_vector ::
  "WaveEmitter \<Rightarrow> py_arg \<Rightarrow> ir_type option \<Rightarrow> error + (Value \<times> WaveEmitter)" where
  "cast_vector emitter a elt =
     (case cast_py_value emitter a None of
        Inl e \<Rightarrow> Inl e
      | Inr (v, emitter1) \<Rightarrow>
          (if is_vector_type (type_of v) then Inr (v, emitter1)
           else (case elt of
                   None \<Rightarrow> Inr (Splat (VectorType [] (type_of v)) v, emitter1)
                 | Some t \<Rightarrow> Inr (Splat (VectorType [] t) v, emitter1))))"

definition cast_kernel_buffer ::
  "WaveEmitter \<Rightarrow> py_arg \<Rightarrow> error + ((Value \<times> ir_type) \<times> WaveEmitter)" where
  "cast_kernel_buffer emitter a =
     (case a of
        ArgNode n \<Rightarrow>
          (case cast_py_value emitter a None of
             Inl e \<Rightarrow> Inl e
           | Inr (v, emitter1) \<Rightarrow>
               (case type_of v of
                  MemRefType shape t \<Rightarrow> Inr ((v, MemRefType shape t), emitter1)
                | _ \<Rightarrow> Inl (CodegenError ''Expected a KernelBuffer (aka. memref)'')))
      | _ \<Rightarrow> Inl (CodegenError ''Expected a KernelBuffer (aka. memref)''))"

section \<open>The symbolic index compiler\<close>

text \<open>
  \<^verbatim>\<open>get_induction_vars\<close>: with a non-empty table of induction variables, the
  induction symbol and the loop variable of every tiling constraint, whose dimension must
  then be in the table.
\<close>

fun tiling_induction_vars ::
  "(IndexSymbol \<times> Value) list \<Rightarrow> Constraint list \<Rightarrow> error + (IndexSymbol list \<times> Value list)" where
  "tiling_induction_vars ivs [] = Inr ([], [])"
| "tiling_induction_vars ivs (TilingConstraint d iv # cs) =
     (case map_of ivs d of
        None \<Rightarrow> Inl (AssertionError ''Could not find induction var for dimension'')
      | Some v \<Rightarrow>
          (case tiling_induction_vars ivs cs of
             Inl e \<Rightarrow> Inl e
           | Inr (syms, vals) \<Rightarrow> Inr (iv # syms, v # vals)))"
| "tiling_induction_vars ivs (c # cs) = tiling_induction_vars ivs cs"

definition get_induction_vars :: "WaveEmitter \<Rightarrow> error + (IndexSymbol list \<times> Value list)" where
  "get_induction_vars emitter =
     (if induction_vars emitter \<noteq> []
      then tiling_induction_vars (induction_vars emitter) (constraints emitter)
      else Inr ([], []))"

definition THREAD_0 :: IndexSymbol where "THREAD_0 = index_symbol ''$T0''"
definition THREAD_1 :: IndexSymbol where "THREAD_1 = index_symbol ''$T1''"
definition THREAD_2 :: IndexSymbol where "THREAD_2 = index_symbol ''$T2''"
definition WORKGROUP_0 :: IndexSymbol where "WORKGROUP_0 = index_symbol ''$WG0''"
definition WORKGROUP_1 :: IndexSymbol where "WORKGROUP_1 = index_symbol ''$WG1''"
definition WORKGROUP_2 :: IndexSymbol where "WORKGROUP_2 = index_symbol ''$WG2''"

text \<open>\<^verbatim>\<open>dict(pairs)\<close> and \<^verbatim>\<open>d.update(other)\<close>: a later pair replaces an earlier one.\<close>

definition dict_update :: "('k \<times> 'v) list \<Rightarrow> ('k \<times> 'v) list \<Rightarrow> ('k \<times> 'v) list" where
  "dict_update d pairs = foldl (\<lambda>acc kv. AList.update (fst kv) (snd kv) acc) d pairs"

definition get_emitter_subs :: "WaveEmitter \<Rightarrow> error + (IndexSymbol \<times> Value) list" where
  "get_emitter_subs emitter =
     (case get_induction_vars emitter of
        Inl e \<Rightarrow> Inl e
      | Inr (induction_var_syms, ivs) \<Rightarrow>
          (let all_symbols = thread_ids emitter @ workgroup_ids emitter @ ivs;
               dynamics = dict_update []
                  (zip ([THREAD_0, THREAD_1, THREAD_2, WORKGROUP_0, WORKGROUP_1, WORKGROUP_2]
                          @ induction_var_syms) all_symbols)
           in Inr (dict_update dynamics (dynamic_dims emitter))))"

text \<open>
  The operand stack of \<^verbatim>\<open>gen_sympy_index\<close> holds IR values and deferred rationals
  (the named tuple \<^verbatim>\<open>_Rational(numerator, denominator)\<close>).
\<close>

datatype stack_value = Concrete Value | Rational' (numerator: Value) (denominator: Value)

fun is_rational :: "stack_value \<Rightarrow> bool" where
  "is_rational (Rational' n d) = True"
| "is_rational (Concrete v) = False"

definition check_vec_scalar :: "Value \<Rightarrow> Value \<Rightarrow> bool" where
  "check_vec_scalar a b = (is_vector_type (type_of a) \<and> element_type (type_of a) = type_of b)"

definition broadcast :: "Value \<Rightarrow> Value \<Rightarrow> error + (Value \<times> Value)" where
  "broadcast a b =
     (if type_of a = type_of b then Inr (a, b)
      else if check_vec_scalar a b then Inr (a, Splat (type_of a) b)
      else if check_vec_scalar b a then Inr (Splat (type_of b) a, b)
      else Inl (CodegenError ''Cannot broadcast''))"

fun get_const_val :: "Value \<Rightarrow> int option" where
  "get_const_val (Constant t (IntegerAttr t' v)) = Some v"
| "get_const_val v = None"

definition muli_fold :: "Value \<Rightarrow> Value \<Rightarrow> Value" where
  "muli_fold lhs rhs =
     (if get_const_val lhs = Some 1 then rhs
      else if get_const_val rhs = Some 1 then lhs
      else MulI lhs rhs)"

text \<open>An operation applied to the two results of \<^verbatim>\<open>_broadcast\<close>.\<close>

definition on_broadcast :: "(Value \<Rightarrow> Value \<Rightarrow> Value) \<Rightarrow> Value \<Rightarrow> Value \<Rightarrow> error + Value" where
  "on_broadcast f a b = (case broadcast a b of Inl e \<Rightarrow> Inl e | Inr (a', b') \<Rightarrow> Inr (f a' b'))"

fun add' :: "stack_value \<Rightarrow> stack_value \<Rightarrow> error + stack_value" where
  "add' (Rational' lnum lden) (Concrete rhs) =
     (case on_broadcast muli_fold lden rhs of
        Inl e \<Rightarrow> Inl e
      | Inr n1 \<Rightarrow>
          (case on_broadcast AddI n1 lnum of
             Inl e \<Rightarrow> Inl e
           | Inr n2 \<Rightarrow> Inr (Rational' n2 lden)))"
| "add' (Concrete lhs) (Rational' rnum rden) =
     (case on_broadcast muli_fold lhs rden of
        Inl e \<Rightarrow> Inl e
      | Inr n1 \<Rightarrow>
          (case on_broadcast AddI n1 rnum of
             Inl e \<Rightarrow> Inl e
           | Inr n2 \<Rightarrow> Inr (Rational' n2 rden)))"
| "add' (Rational' lnum lden) (Rational' rnum rden) =
     (case on_broadcast muli_fold lnum rden of
        Inl e \<Rightarrow> Inl e
      | Inr lhs_numerator \<Rightarrow>
          (case on_broadcast muli_fold rnum lden of
             Inl e \<Rightarrow> Inl e
           | Inr rhs_numerator \<Rightarrow>
               (case on_broadcast AddI lhs_numerator rhs_numerator of
                  Inl e \<Rightarrow> Inl e
                | Inr n \<Rightarrow>
                    (case on_broadcast muli_fold lden rden of
                       Inl e \<Rightarrow> Inl e
                     | Inr d \<Rightarrow> Inr (Rational' n d)))))"
| "add' (Concrete lhs) (Concrete rhs) =
     (case on_broadcast AddI lhs rhs of Inl e \<Rightarrow> Inl e | Inr v \<Rightarrow> Inr (Concrete v))"

fun mul' :: "stack_value \<Rightarrow> stack_value \<Rightarrow> error + stack_value" where
  "mul' (Rational' lnum lden) (Concrete rhs) =
     (case on_broadcast muli_fold lnum rhs of
        Inl e \<Rightarrow> Inl e
      | Inr n \<Rightarrow> Inr (Rational' n lden))"
| "mul' (Concrete lhs) (Rational' rnum rden) =
     (case on_broadcast muli_fold lhs rnum of
        Inl e \<Rightarrow> Inl e
      | Inr n \<Rightarrow> Inr (Rational' n rden))"
| "mul' (Rational' lnum lden) (Rational' rnum rden) =
     (case on_broadcast muli_fold lnum rnum of
        Inl e \<Rightarrow> Inl e
      | Inr n \<Rightarrow>
          (case on_broadcast muli_fold lden rden of
             Inl e \<Rightarrow> Inl e
           | Inr d \<Rightarrow> Inr (Rational' n d)))"
| "mul' (Concrete lhs) (Concrete rhs) =
     (case on_broadcast muli_fold lhs rhs of Inl e \<Rightarrow> Inl e | Inr v \<Rightarrow> Inr (Concrete v))"

fun floor' :: "stack_value \<Rightarrow> error + stack_value" where
  "floor' (Rational' n d) =
     (case on_broadcast DivSI n d of Inl e \<Rightarrow> Inl e | Inr v \<Rightarrow> Inr (Concrete v))"
| "floor' (Concrete v) = Inr (Concrete v)"

fun ceiling' :: "stack_value \<Rightarrow> error + stack_value" where
  "ceiling' (Rational' n d) =
     (case on_broadcast CeilDivSI n d of Inl e \<Rightarrow> Inl e | Inr v \<Rightarrow> Inr (Concrete v))"
| "ceiling' (Concrete v) = Inr (Concrete v)"

text \<open>
  \<^verbatim>\<open>_group_rationals\<close>: one value is popped per argument (so the first argument is
  paired with the value pushed last); with induction symbols the pairs are sorted, stably
  and in descending order, by the number of induction symbols among the free symbols of
  the argument; the non-rational values come first in the result.
\<close>

fun pop_terms ::
  "expr list \<Rightarrow> stack_value list \<Rightarrow> error + ((expr \<times> stack_value) list \<times> stack_value list)" where
  "pop_terms [] st = Inr ([], st)"
| "pop_terms (a # as) [] = Inl IndexError"
| "pop_terms (a # as) (v # st) =
     (case pop_terms as st of
        Inl e \<Rightarrow> Inl e
      | Inr (ts, st') \<Rightarrow> Inr ((a, v) # ts, st'))"

definition induction_key :: "IndexSymbol list \<Rightarrow> expr \<times> stack_value \<Rightarrow> nat" where
  "induction_key induction_var_syms t =
     length (filter (\<lambda>sym. sym \<in> set (free_symbols (fst t))) induction_var_syms)"

definition group_rationals ::
  "IndexSymbol list \<Rightarrow> stack_value list \<Rightarrow> expr list \<Rightarrow>
   error + (stack_value list \<times> stack_value list)" where
  "group_rationals induction_var_syms st as =
     (case pop_terms as st of
        Inl e \<Rightarrow> Inl e
      | Inr (terms, st') \<Rightarrow>
          (let sorted_terms =
                 (if induction_var_syms \<noteq> []
                  then sort_key (\<lambda>t. - int (induction_key induction_var_syms t)) terms
                  else terms);
               vals = map snd sorted_terms
           in Inr (filter (\<lambda>v. \<not> is_rational v) vals @ filter is_rational vals, st')))"

fun apply_from ::
  "(stack_value \<Rightarrow> stack_value \<Rightarrow> error + stack_value) \<Rightarrow> stack_value \<Rightarrow> stack_value list \<Rightarrow>
   error + stack_value" where
  "apply_from func v [] = Inr v"
| "apply_from func v (x # xs) =
     (case func v x of Inl e \<Rightarrow> Inl e | Inr v' \<Rightarrow> apply_from func v' xs)"

fun apply' ::
  "stack_value list \<Rightarrow> (stack_value \<Rightarrow> stack_value \<Rightarrow> error + stack_value) \<Rightarrow> error + stack_value" where
  "apply' [] func = Inl (AssertionError ''len(args) > 0'')"
| "apply' (v # vs) func = apply_from func v vs"

datatype const_val = IntVal int | TupleVal "int list"

text \<open>
  \<^verbatim>\<open>_get_const\<close>: an integer becomes a constant of the index type, a tuple a dense
  constant vector. The constant builder of the IR library is not part of the sources at
  hand; it takes the integers of the index type, so a literal is meant within that range.
\<close>

definition get_const :: "const_val \<Rightarrow> Value" where
  "get_const val =
     (case val of
        IntVal v \<Rightarrow> Constant IndexType (IntegerAttr IndexType v)
      | TupleVal vs \<Rightarrow>
          Constant (VectorType [length vs] IndexType)
            (DenseElementsAttr (map (IntegerAttr IndexType) vs)))"

text \<open>
  Modelled from the spec: \<^verbatim>\<open>IndexingContext.get_val\<close> (not part of the sources at
  hand) answers the compile-time value of a symbol, a number from the frozen substitutions
  or a lane vector from the special ones.
\<close>

definition get_val :: "IndexingContext \<Rightarrow> IndexSymbol \<Rightarrow> const_val option" where
  "get_val ctx s =
     (case map_of (idxc_subs ctx) s of
        Some v \<Rightarrow> Some (IntVal v)
      | None \<Rightarrow> (case map_of (special_subs ctx) s of
                    Some vs \<Rightarrow> Some (TupleVal vs)
                  | None \<Rightarrow> None))"

text \<open>Two operands popped for a binary node; both must be concrete, the right one checked first.\<close>

definition binary_concrete ::
  "(Value \<Rightarrow> Value \<Rightarrow> Value) \<Rightarrow> stack_value list \<Rightarrow> error + stack_value list" where
  "binary_concrete f st =
     (case st of
        rhs # lhs # st' \<Rightarrow>
          (case (rhs, lhs) of
             (Concrete r, Concrete l) \<Rightarrow>
               (case on_broadcast f l r of
                  Inl e \<Rightarrow> Inl e
                | Inr v \<Rightarrow> Inr (Concrete v # st'))
           | _ \<Rightarrow> Inl (CodegenError ''Rational is not supported yet''))
      | _ \<Rightarrow> Inl IndexError)"

text \<open>One iteration of the loop over the post-order traversal: the \<^verbatim>\<open>match\<close>.\<close>

fun visit_term ::
  "IndexingContext \<Rightarrow> (IndexSymbol \<times> Value) list \<Rightarrow> IndexSymbol list \<Rightarrow> expr \<Rightarrow>
   stack_value list \<Rightarrow> error + stack_value list" where
  "visit_term ctx dynamics syms (Symbol s) st =
     (case get_val ctx s of
        Some res \<Rightarrow> Inr (Concrete (get_const res) # st)
      | None \<Rightarrow>
          (case map_of dynamics s of
             Some v \<Rightarrow> Inr (Concrete v # st)
           | None \<Rightarrow> Inl (CodegenError ''Unknown symbol'')))"
| "visit_term ctx dynamics syms (Integer n) st = Inr (Concrete (get_const (IntVal n)) # st)"
| "visit_term ctx dynamics syms (Mul as) st =
     (case group_rationals syms st as of
        Inl e \<Rightarrow> Inl e
      | Inr (vals, st') \<Rightarrow>
          (case apply' vals mul' of Inl e \<Rightarrow> Inl e | Inr v \<Rightarrow> Inr (v # st')))"
| "visit_term ctx dynamics syms (Add as) st =
     (case group_rationals syms st as of
        Inl e \<Rightarrow> Inl e
      | Inr (vals, st') \<Rightarrow>
          (case apply' vals add' of Inl e \<Rightarrow> Inl e | Inr v \<Rightarrow> Inr (v # st')))"
| "visit_term ctx dynamics syms (Mod a b) st = binary_concrete RemSI st"
| "visit_term ctx dynamics syms (Floor a) st =
     (case st of
        [] \<Rightarrow> Inl IndexError
      | v # st' \<Rightarrow> (case floor' v of Inl e \<Rightarrow> Inl e | Inr v' \<Rightarrow> Inr (v' # st')))"
| "visit_term ctx dynamics syms (Ceiling a) st =
     (case st of
        [] \<Rightarrow> Inl IndexError
      | v # st' \<Rightarrow> (case ceiling' v of Inl e \<Rightarrow> Inl e | Inr v' \<Rightarrow> Inr (v' # st')))"
| "visit_term ctx dynamics syms (Rational p q) st =
     Inr (Rational' (get_const (IntVal p)) (get_const (IntVal q)) # st)"
| "visit_term ctx dynamics syms (StrictLessThan a b) st = binary_concrete CmpI_slt st"
| "visit_term ctx dynamics syms (And a b) st = binary_concrete AndI st"
| "visit_term ctx dynamics syms BooleanFalse st =
     Inr (Concrete (Constant (IntegerType 1) (IntegerAttr (IntegerType 1) 0)) # st)"
| "visit_term ctx dynamics syms BooleanTrue st =
     Inr (Concrete (Constant (IntegerType 1) (IntegerAttr (IntegerType 1) 1)) # st)"
| "visit_term ctx dynamics syms (UnevaluatedExpr a) st = Inr st"
| "visit_term ctx dynamics syms (Other nm as) st = Inl (CodegenError ''Can not handle'')"

fun visit_terms ::
  "IndexingContext \<Rightarrow> (IndexSymbol \<times> Value) list \<Rightarrow> IndexSymbol list \<Rightarrow> expr list \<Rightarrow>
   stack_value list \<Rightarrow> error + stack_value list" where
  "visit_terms ctx dynamics syms [] st = Inr st"
| "visit_terms ctx dynamics syms (t # ts) st =
     (case visit_term ctx dynamics syms t st of
        Inl e \<Rightarrow> Inl e
      | Inr st' \<Rightarrow> visit_terms ctx dynamics syms ts st')"

text \<open>
  \<^verbatim>\<open>gen_sympy_index\<close>: the frozen symbols are substituted, the terms are visited in
  post-order on an empty stack, and the stack must end with one concrete value.
\<close>

definition gen_sympy_index ::
  "IndexingContext \<Rightarrow> (IndexSymbol \<times> Value) list \<Rightarrow> expr \<Rightarrow> IndexSymbol list \<Rightarrow> error + Value" where
  "gen_sympy_index ctx dynamics e induction_var_syms =
     (let e' = subs (map (\<lambda>kv. (fst kv, Integer (snd kv))) (idxc_subs ctx)) e
      in case visit_terms ctx dynamics induction_var_syms (postorder_traversal e') [] of
           Inl err \<Rightarrow> Inl err
         | Inr st \<Rightarrow>
             (case st of
                [Concrete v] \<Rightarrow> Inr v
              | _ \<Rightarrow> Inl (CodegenError ''Expected single result'')))"

definition gen_sympy_index_full :: "WaveEmitter \<Rightarrow> expr \<Rightarrow> error + Value" where
  "gen_sympy_index_full emitter e =
     (case get_emitter_subs emitter of
        Inl err \<Rightarrow> Inl err
      | Inr dynamics \<Rightarrow>
          (case get_induction_vars emitter of
             Inl err \<Rightarrow> Inl err
           | Inr (induction_var_syms, ivs) \<Rightarrow>
               gen_sympy_index (idxc emitter) dynamics e induction_var_syms))"

section \<open>Meaning of the index arithmetic of the target\<close>

text \<open>
  The operations the index compiler emits compute on machine integers: \<open>index\<close> is a
  64-bit two's complement integer, addition and multiplication wrap around, division and
  remainder are signed, and the comparison is signed. A vector operation works lane by
  lane. A value has no meaning (\<open>None\<close>) when an operation is applied to operands of the
  wrong kind, when a division or remainder has a zero divisor or overflows, and for the
  operations that are not index arithmetic.
\<close>

type_synonym index = "64 word"

datatype rt_scalar = IndexVal index | BoolVal bool

datatype rt_value = Scalar rt_scalar | Vector "rt_scalar list"

record runtime =
  rt_workgroup_id :: "nat \<Rightarrow> index"
  rt_thread_id :: "nat \<Rightarrow> index"
  rt_block_arg :: "nat \<Rightarrow> index"
  rt_induction_var :: "nat \<Rightarrow> index"

definition divsi :: "index \<Rightarrow> index \<Rightarrow> index option" where
  "divsi a b =
     (if b = 0 \<or> (sint a = - (2 ^ 63) \<and> sint b = - 1) then None
      else Some (word_of_int (sint a sdiv sint b)))"

definition ceildivsi :: "index \<Rightarrow> index \<Rightarrow> index option" where
  "ceildivsi a b =
     (if b = 0 \<or> (sint a = - (2 ^ 63) \<and> sint b = - 1) then None
      else Some (word_of_int (- ((- sint a) div sint b))))"

definition remsi :: "index \<Rightarrow> index \<Rightarrow> index option" where
  "remsi a b = (if b = 0 then None else Some (word_of_int (sint a smod sint b)))"

fun scalar_op ::
  "(index \<Rightarrow> index \<Rightarrow> rt_scalar option) \<Rightarrow> rt_scalar \<Rightarrow> rt_scalar \<Rightarrow> rt_scalar option" where
  "scalar_op f (IndexVal a) (IndexVal b) = f a b"
| "scalar_op f x y = None"

fun bool_op :: "(bool \<Rightarrow> bool \<Rightarrow> bool) \<Rightarrow> rt_scalar \<Rightarrow> rt_scalar \<Rightarrow> rt_scalar option" where
  "bool_op f (BoolVal a) (BoolVal b) = Some (BoolVal (f a b))"
| "bool_op f x y = None"

fun those_scalars :: "rt_scalar option list \<Rightarrow> rt_scalar list option" where
  "those_scalars [] = Some []"
| "those_scalars (None # xs) = None"
| "those_scalars (Some x # xs) =
     (case those_scalars xs of None \<Rightarrow> None | Some ys \<Rightarrow> Some (x # ys))"

fun lanewise ::
  "(rt_scalar \<Rightarrow> rt_scalar \<Rightarrow> rt_scalar option) \<Rightarrow> rt_value option \<Rightarrow> rt_value option \<Rightarrow>
   rt_value option" where
  "lanewise f (Some (Scalar a)) (Some (Scalar b)) = map_option Scalar (f a b)"
| "lanewise f (Some (Vector as)) (Some (Vector bs)) =
     (if length as = length bs
      then map_option Vector (those_scalars (map (\<lambda>ab. f (fst ab) (snd ab)) (zip as bs)))
      else None)"
| "lanewise f x y = None"

fun attr_scalar :: "ir_type \<Rightarrow> Attribute \<Rightarrow> rt_scalar option" where
  "attr_scalar IndexType (IntegerAttr t v) = Some (IndexVal (word_of_int v))"
| "attr_scalar (IntegerType w) (IntegerAttr t v) =
     (if w = 1 then Some (BoolVal (v \<noteq> 0)) else None)"
| "attr_scalar t a = None"

fun eval :: "runtime \<Rightarrow> Value \<Rightarrow> rt_value option" where
  "eval rt (BlockArgument n t) =
     (if t = IndexType then Some (Scalar (IndexVal (rt_block_arg rt n))) else None)"
| "eval rt (WorkgroupId n) = Some (Scalar (IndexVal (rt_workgroup_id rt n)))"
| "eval rt (ThreadId n) = Some (Scalar (IndexVal (rt_thread_id rt n)))"
| "eval rt (InductionVariable l) = Some (Scalar (IndexVal (rt_induction_var rt l)))"
| "eval rt (Constant t a) =
     (case t of
        VectorType shape et \<Rightarrow>
          (case a of
             DenseElementsAttr as \<Rightarrow>
               (if shape = [length as]
                then map_option Vector (those_scalars (map (attr_scalar et) as))
                else None)
           | _ \<Rightarrow> None)
      | _ \<Rightarrow> map_option Scalar (attr_scalar t a))"
| "eval rt (Splat t v) =
     (case (t, eval rt v) of
        (VectorType [n] et, Some (Scalar x)) \<Rightarrow> Some (Vector (replicate n x))
      | _ \<Rightarrow> None)"
| "eval rt (AddI a b) =
     lanewise (scalar_op (\<lambda>x y. Some (IndexVal (x + y)))) (eval rt a) (eval rt b)"
| "eval rt (MulI a b) =
     lanewise (scalar_op (\<lambda>x y. Some (IndexVal (x * y)))) (eval rt a) (eval rt b)"
| "eval rt (DivSI a b) =
     lanewise (scalar_op (\<lambda>x y. map_option IndexVal (divsi x y))) (eval rt a) (eval rt b)"
| "eval rt (CeilDivSI a b) =
     lanewise (scalar_op (\<lambda>x y. map_option IndexVal (ceildivsi x y))) (eval rt a) (eval rt b)"
| "eval rt (RemSI a b) =
     lanewise (scalar_op (\<lambda>x y. map_option IndexVal (remsi x y))) (eval rt a) (eval rt b)"
| "eval rt (CmpI_slt a b) =
     lanewise (scalar_op (\<lambda>x y. Some (BoolVal (sint x < sint y)))) (eval rt a) (eval rt b)"
| "eval rt (AndI a b) = lanewise (bool_op (\<and>)) (eval rt a) (eval rt b)"
| "eval rt (ConstantMask t dims) =
     (case (t, dims) of
        (VectorType [n] (IntegerType w), [k]) \<Rightarrow>
          (if w = 1 then Some (Vector (map (\<lambda>i. BoolVal (i < k)) [0 ..< n])) else None)
      | _ \<Rightarrow> None)"
| "eval rt v = None"

section \<open>The memory access synthesizer\<close>

text \<open>
  The two utilities the synthesizer imports from modules that are not part of the sources
  at hand are parameters: the bounds lookup (the bounded dimensions of an index, or
  \<^verbatim>\<open>None\<close>) and the stride computation (the strides of a symbolic shape, or
  \<^verbatim>\<open>None\<close> when the shape is not static).
\<close>

record externals =
  find_index_bounds ::
    "Constraint list \<Rightarrow> (IndexSymbol \<times> IndexSequence) list \<Rightarrow> IndexSymbol list option"
  strides_from_symbolic_shape :: "IndexingContext \<Rightarrow> IndexSymbol list \<Rightarrow> int list option"

text \<open>
  Python's arithmetic on expressions builds trees: \<^verbatim>\<open>a + b\<close>, \<^verbatim>\<open>a * b\<close>,
  \<^verbatim>\<open>a - b\<close> and \<^verbatim>\<open>a < b\<close>; an integer operand becomes a literal.
\<close>

definition py_add :: "expr \<Rightarrow> expr \<Rightarrow> expr" where
  "py_add a b = Add [a, b]"

definition py_mul :: "expr \<Rightarrow> expr \<Rightarrow> expr" where
  "py_mul a b = Mul [a, b]"

definition py_sub :: "expr \<Rightarrow> expr \<Rightarrow> expr" where
  "py_sub a b = Add [a, Mul [Integer (- 1), b]]"

text \<open>
  Modelled from the spec: \<^verbatim>\<open>IndexingContext.iota(n)\<close> (not part of the sources at
  hand) is the lane symbol of width \<open>n\<close>, whose compile-time value is the vector of lane
  offsets \<open>0, \<dots>, n - 1\<close>, registered with the special substitutions on first use.
\<close>

definition iota :: "IndexingContext \<Rightarrow> nat \<Rightarrow> IndexSymbol \<times> IndexingContext" where
  "iota ctx n =
     (IOTA n,
      (case map_of (special_subs ctx) (IOTA n) of
         Some vs \<Rightarrow> ctx
       | None \<Rightarrow> ctx\<lparr> special_subs := special_subs ctx @ [(IOTA n, map int [0 ..< n])] \<rparr>))"

text \<open>\<^verbatim>\<open>subs_idxc\<close> and \<^verbatim>\<open>expr.subs(idxc.subs)\<close>: the frozen symbols replaced by their numbers.\<close>

definition frozen :: "IndexingContext \<Rightarrow> (IndexSymbol \<times> expr) list" where
  "frozen ctx = map (\<lambda>kv. (fst kv, Integer (snd kv))) (idxc_subs ctx)"

definition subs_idxc :: "IndexingContext \<Rightarrow> expr \<Rightarrow> expr" where
  "subs_idxc ctx e = subs (frozen ctx) e"

fun get_start_index :: "IndexSequence \<Rightarrow> expr" where
  "get_start_index (IndexSequence s sz st) = s"
| "get_start_index (IndexExpr e) = e"

definition get_start_indices :: "(IndexSymbol \<times> IndexSequence) list \<Rightarrow> expr list" where
  "get_start_indices src_indices = map (\<lambda>kv. get_start_index (snd kv)) src_indices"

fun gen_all :: "WaveEmitter \<Rightarrow> expr list \<Rightarrow> error + Value list" where
  "gen_all emitter [] = Inr []"
| "gen_all emitter (e # es) =
     (case gen_sympy_index_full emitter e of
        Inl err \<Rightarrow> Inl err
      | Inr v \<Rightarrow> (case gen_all emitter es of Inl err \<Rightarrow> Inl err | Inr vs \<Rightarrow> Inr (v # vs)))"

definition build_start_indices ::
  "WaveEmitter \<Rightarrow> (IndexSymbol \<times> IndexSequence) list \<Rightarrow> error + Value list" where
  "build_start_indices emitter src_indices = gen_all emitter (get_start_indices src_indices)"

text \<open>\<^verbatim>\<open>sum(i * s for i, s in zip(indices, strides))\<close>, summed from \<open>0\<close>.\<close>

definition compute_offset :: "expr list \<Rightarrow> int list \<Rightarrow> expr" where
  "compute_offset indices strides =
     foldl py_add (Integer 0) (map (\<lambda>p. py_mul (fst p) (Integer (snd p))) (zip indices strides))"

definition is_identity_mapping ::
  "IndexMapping \<Rightarrow> IndexSymbol list option \<Rightarrow> IndexSymbol list option \<Rightarrow> bool" where
  "is_identity_mapping mapping in_shape out_shape =
     (if \<not> is_identity mapping then False
      else if in_shape \<noteq> None \<and> Some (input_shape mapping) \<noteq> in_shape then False
      else if out_shape \<noteq> None \<and> Some (output_shape mapping) \<noteq> out_shape then False
      else True)"

text \<open>
  The predicates \<^verbatim>\<open>new_index[dim] < dim\<close> for the bounded dimensions; a bounded
  dimension that the index does not have is a \<^verbatim>\<open>KeyError\<close>.
\<close>

fun bound_predicates :: "(IndexSymbol \<times> expr) list \<Rightarrow> IndexSymbol list \<Rightarrow> error + expr list" where
  "bound_predicates new_index [] = Inr []"
| "bound_predicates new_index (d # ds) =
     (case map_of new_index d of
        None \<Rightarrow> Inl KeyError
      | Some e \<Rightarrow>
          (case bound_predicates new_index ds of
             Inl err \<Rightarrow> Inl err
           | Inr ps \<Rightarrow> Inr (StrictLessThan e (Symbol d) # ps)))"

text \<open>
  \<^verbatim>\<open>_build_mask\<close>: no mask when no dimension is bounded; otherwise the lane symbol is
  added to the start of the last dimension of the index, the predicates of the bounded
  dimensions are joined by \<open>And\<close> from the left (\<^verbatim>\<open>functools.reduce\<close>, which
  raises on an empty sequence), the expression is lowered, and the result is splat when it
  is not already a mask vector of the requested width.
\<close>

definition build_mask ::
  "externals \<Rightarrow> WaveEmitter \<Rightarrow> (IndexSymbol \<times> IndexSequence) list \<Rightarrow> nat \<Rightarrow>
   error + (Value option \<times> WaveEmitter)" where
  "build_mask ext emitter idx elements_per_thread =
     (case find_index_bounds ext (constraints emitter) idx of
        None \<Rightarrow> Inr (None, emitter)
      | Some bounds \<Rightarrow>
          (if idx = [] then Inl IndexError
           else
             (let last_dim = fst (last idx);
                  new_index = map (\<lambda>kv. (fst kv, get_start_index (snd kv))) idx;
                  lane = iota (idxc emitter) elements_per_thread;
                  emitter1 = emitter\<lparr> idxc := snd lane \<rparr>;
                  new_index1 = AList.update last_dim
                     (py_add (get_start_index (snd (last idx))) (Symbol (fst lane))) new_index
              in case bound_predicates new_index1 bounds of
                   Inl err \<Rightarrow> Inl err
                 | Inr preds \<Rightarrow>
                     (case preds of
                        [] \<Rightarrow> Inl TypeError
                      | p # ps \<Rightarrow>
                          (case gen_sympy_index_full emitter1 (foldl And p ps) of
                             Inl err \<Rightarrow> Inl err
                           | Inr msk \<Rightarrow>
                               (let mask_vec_type = VectorType [elements_per_thread] (IntegerType 1)
                                in Inr (Some (if type_of msk \<noteq> mask_vec_type
                                              then Splat mask_vec_type msk else msk),
                                        emitter1)))))))"

text \<open>
  A closed expression is a number; \<^verbatim>\<open>int(offset)\<close> is its value truncated towards
  zero. The value of an expression under an assignment of its symbols is the exact one:
  rational arithmetic, the floor-based remainder, truth values as \<open>0\<close> and \<open>1\<close>.
\<close>

fun expr_value :: "(IndexSymbol \<Rightarrow> rat) \<Rightarrow> expr \<Rightarrow> rat" where
  "expr_value env (Symbol s) = env s"
| "expr_value env (Integer n) = of_int n"
| "expr_value env (Rational p q) = of_int p / of_int q"
| "expr_value env (Mul es) = prod_list (map (expr_value env) es)"
| "expr_value env (Add es) = sum_list (map (expr_value env) es)"
| "expr_value env (Mod a b) =
     expr_value env a - expr_value env b * of_int \<lfloor>expr_value env a / expr_value env b\<rfloor>"
| "expr_value env (Floor a) = of_int \<lfloor>expr_value env a\<rfloor>"
| "expr_value env (Ceiling a) = of_int \<lceil>expr_value env a\<rceil>"
| "expr_value env (StrictLessThan a b) = (if expr_value env a < expr_value env b then 1 else 0)"
| "expr_value env (And a b) = (if expr_value env a \<noteq> 0 \<and> expr_value env b \<noteq> 0 then 1 else 0)"
| "expr_value env BooleanFalse = 0"
| "expr_value env BooleanTrue = 1"
| "expr_value env (UnevaluatedExpr a) = expr_value env a"
| "expr_value env (Other nm es) = 0"

definition is_number :: "expr \<Rightarrow> bool" where
  "is_number e = (free_symbols e = [])"

definition py_int :: "rat \<Rightarrow> int" where
  "py_int v = (if 0 \<le> v then \<lfloor>v\<rfloor> else \<lceil>v\<rceil>)"

definition expr_int :: "expr \<Rightarrow> int" where
  "expr_int e = py_int (expr_value (\<lambda>s. 0) e)"

text \<open>\<^verbatim>\<open>expr.start\<close> of an index entry; a plain expression has no such attribute.\<close>

fun starts_of :: "(IndexSymbol \<times> IndexSequence) list \<Rightarrow> error + expr list" where
  "starts_of [] = Inr []"
| "starts_of ((k, IndexSequence s sz st) # rest) =
     (case starts_of rest of Inl err \<Rightarrow> Inl err | Inr ss \<Rightarrow> Inr (s # ss))"
| "starts_of ((k, IndexExpr e) # rest) = Inl (AttributeError ''start'')"

text \<open>
  The substitution of the iterators by the start indices, with the last pair replaced:
  \<^verbatim>\<open>subs = [(sym, idx) for sym, idx in zip(iters.keys(), start_indices_orig)]\<close> and
  \<^verbatim>\<open>subs[-1] = (subs[-1][0], last)\<close>.
\<close>

definition lane_subs ::
  "IndexSymbol list \<Rightarrow> expr list \<Rightarrow> expr \<Rightarrow> error + (IndexSymbol \<times> expr) list" where
  "lane_subs its start_indices_orig last_expr =
     (let pairs = zip its start_indices_orig
      in if pairs = [] then Inl IndexError
         else Inr (butlast pairs @ [(fst (last pairs), last_expr)]))"

text \<open>
  The loop over the lanes that looks for constant offsets: the offset of lane \<open>i\<close> is
  the linear offset of the mapped coordinates of the lane minus the linear offset of the
  mapped start indices; the loop stops at the first offset that is not a number.
\<close>

fun constant_offsets ::
  "IndexingContext \<Rightarrow> IndexSymbol list \<Rightarrow> expr list \<Rightarrow> expr list \<Rightarrow> int list \<Rightarrow> expr \<Rightarrow> int \<Rightarrow>
   nat list \<Rightarrow> error + (Attribute list \<times> bool)" where
  "constant_offsets ctx its index_mapping start_indices_orig strides start_indices_offset
      thread_offset [] = Inr ([], False)"
| "constant_offsets ctx its index_mapping start_indices_orig strides start_indices_offset
      thread_offset (i # lanes) =
     (if start_indices_orig = [] then Inl IndexError
      else
        (case lane_subs its start_indices_orig
                (py_add (py_add (last start_indices_orig) (Integer (int i)))
                   (Integer thread_offset)) of
           Inl err \<Rightarrow> Inl err
         | Inr sb \<Rightarrow>
             (let indices = map (subs sb) index_mapping;
                  offset = subs_idxc ctx
                     (py_sub (compute_offset indices strides) start_indices_offset)
              in if is_number offset then
                   (case constant_offsets ctx its index_mapping start_indices_orig strides
                           start_indices_offset thread_offset lanes of
                      Inl err \<Rightarrow> Inl err
                    | Inr (offsets, need_dynamic_offsets) \<Rightarrow>
                        Inr (IntegerAttr IndexType (expr_int offset) # offsets,
                             need_dynamic_offsets))
                 else Inr ([], True))))"

text \<open>
  The branch taken when dynamic offsets are needed: all start indices are \<open>0\<close> and the
  offsets vector is the lowered linear offset of the mapped coordinates, with the lane
  symbol added to the last start index. The test
  \<^verbatim>\<open>isinstance(offsets_vec, VectorType)\<close> of the source compares a value with a
  type class and never holds, so the splat is always applied.
\<close>

definition dynamic_offsets ::
  "WaveEmitter \<Rightarrow> IndexSymbol list \<Rightarrow> IndexSymbol list \<Rightarrow> expr list \<Rightarrow> expr list \<Rightarrow> int list \<Rightarrow>
   nat \<Rightarrow> int \<Rightarrow> error + ((Value list \<times> Value) \<times> WaveEmitter)" where
  "dynamic_offsets emitter symbolc_shape its index_mapping start_indices_orig strides
      elements_per_thread thread_offset =
     (case build_start_indices emitter (map (\<lambda>key. (key, IndexExpr (Integer 0))) symbolc_shape) of
        Inl err \<Rightarrow> Inl err
      | Inr start_indices \<Rightarrow>
          (if start_indices_orig = [] then Inl IndexError
           else
             (let lane = iota (idxc emitter) elements_per_thread;
                  emitter1 = emitter\<lparr> idxc := snd lane \<rparr>;
                  off = py_add (py_add (last start_indices_orig) (Symbol (fst lane)))
                          (Integer thread_offset)
              in case lane_subs its start_indices_orig off of
                   Inl err \<Rightarrow> Inl err
                 | Inr sb \<Rightarrow>
                     (case gen_sympy_index_full emitter1
                             (compute_offset (map (subs sb) index_mapping) strides) of
                        Inl err \<Rightarrow> Inl err
                      | Inr offsets_vec \<Rightarrow>
                          Inr ((start_indices,
                                Splat (VectorType [elements_per_thread] IndexType) offsets_vec),
                               emitter1)))))"

text \<open>
  The other branch: the mapped start indices, and the constant offsets as one dense
  constant.
\<close>

definition static_offsets ::
  "WaveEmitter \<Rightarrow> (IndexSymbol \<times> IndexSequence) list \<Rightarrow> Attribute list \<Rightarrow> nat \<Rightarrow>
   error + ((Value list \<times> Value) \<times> WaveEmitter)" where
  "static_offsets emitter result_index offsets elements_per_thread =
     (case build_start_indices emitter result_index of
        Inl err \<Rightarrow> Inl err
      | Inr start_indices \<Rightarrow>
          Inr ((start_indices,
                Constant (VectorType [elements_per_thread] IndexType) (DenseElementsAttr offsets)),
               emitter))"

text \<open>
  The opening of \<^verbatim>\<open>_construct_gather_scatter_indices\<close>: the assertion on the
  mapping, and the index expressions of the other side in the order of the shape.
\<close>

definition mapped_indices :: "IndexMapping \<Rightarrow> IndexSymbol list \<Rightarrow> bool \<Rightarrow> error + expr list" where
  "mapped_indices mapping symbolc_shape is_read =
     (if is_read then
        (if \<not> is_output_identity mapping
         then Inl (AssertionError ''non-identity output mapping is not supported yet'')
         else map_input_indices mapping symbolc_shape)
      else
        (if \<not> is_input_identity mapping
         then Inl (AssertionError ''non-identity input mapping is not supported yet'')
         else map_output_indices mapping symbolc_shape))"

text \<open>
  The rest of \<^verbatim>\<open>_construct_gather_scatter_indices\<close>. The source chooses the branch
  by \<^verbatim>\<open>if need_dynamic_offsets or True\<close>; the literal of that condition is the
  parameter \<open>fallback\<close> here, so that the branch of the constant offsets can be named.
\<close>

definition gather_scatter_indices_with ::
  "bool \<Rightarrow> externals \<Rightarrow> WaveEmitter \<Rightarrow> IndexSymbol list \<Rightarrow> (IndexSymbol \<times> IndexSequence) list \<Rightarrow>
   IndexMapping \<Rightarrow> nat \<Rightarrow> bool \<Rightarrow> int \<Rightarrow> error + ((Value list \<times> Value \<times> Value) \<times> WaveEmitter)" where
  "gather_scatter_indices_with fallback ext emitter symbolc_shape idx mapping elements_per_thread
      is_read thread_offset =
     (case mapped_indices mapping symbolc_shape is_read of
        Inl err \<Rightarrow> Inl err
      | Inr index_mapping0 \<Rightarrow>
          (let ctx = idxc emitter;
               index_mapping = map (subs (frozen ctx)) index_mapping0;
               its = iters mapping
           in case starts_of (take (length its) idx) of
                Inl err \<Rightarrow> Inl err
              | Inr iter_starts \<Rightarrow>
                  (let sb = zip its iter_starts @ frozen ctx;
                       result_index =
                         dict_update []
                           (zip symbolc_shape (map (\<lambda>m. IndexExpr (subs sb m)) index_mapping))
                   in case strides_from_symbolic_shape ext ctx symbolc_shape of
                        None \<Rightarrow> Inl TypeError
                      | Some strides \<Rightarrow>
                          (let start_indices = get_start_indices result_index;
                               start_indices_orig = get_start_indices idx;
                               start_indices_offset = compute_offset start_indices strides
                           in case constant_offsets ctx its index_mapping start_indices_orig
                                     strides start_indices_offset thread_offset
                                     [0 ..< elements_per_thread] of
                                Inl err \<Rightarrow> Inl err
                              | Inr (offsets, need_dynamic_offsets) \<Rightarrow>
                                  (case (if need_dynamic_offsets \<or> fallback
                                         then dynamic_offsets emitter symbolc_shape its
                                                index_mapping start_indices_orig strides
                                                elements_per_thread thread_offset
                                         else static_offsets emitter result_index offsets
                                                elements_per_thread) of
                                     Inl err \<Rightarrow> Inl err
                                   | Inr ((start_indices1, offsets_vec), emitter1) \<Rightarrow>
                                       (case build_mask ext emitter1 idx elements_per_thread of
                                          Inl err \<Rightarrow> Inl err
                                        | Inr (msk, emitter2) \<Rightarrow>
                                            Inr ((start_indices1, offsets_vec,
                                                  (case msk of
                                                     Some m \<Rightarrow> m
                                                   | None \<Rightarrow>
                                                       ConstantMask
                                                         (VectorType [elements_per_thread]
                                                            (IntegerType 1))
                                                         [elements_per_thread])),
                                                 emitter2)))))))"

text \<open>\<^verbatim>\<open>_construct_gather_scatter_indices\<close>, with the literal of the source.\<close>

definition construct_gather_scatter_indices ::
  "externals \<Rightarrow> WaveEmitter \<Rightarrow> IndexSymbol list \<Rightarrow> (IndexSymbol \<times> IndexSequence) list \<Rightarrow>
   IndexMapping \<Rightarrow> nat \<Rightarrow> bool \<Rightarrow> int \<Rightarrow> error + ((Value list \<times> Value \<times> Value) \<times> WaveEmitter)" where
  "construct_gather_scatter_indices ext emitter symbolc_shape idx mapping elements_per_thread
      is_read thread_offset =
     gather_scatter_indices_with True ext emitter symbolc_shape idx mapping elements_per_thread
       is_read thread_offset"

section \<open>Operation handlers\<close>

type_synonym emit_graph_fn =
  "WaveEmitter \<Rightarrow> node list \<Rightarrow> error + (py_arg list option \<times> WaveEmitter)"

type_synonym handler = "emit_graph_fn \<Rightarrow> WaveEmitter \<Rightarrow> node \<Rightarrow> error + WaveEmitter"

subsection \<open>Shuffle\<close>

text \<open>
  \<^verbatim>\<open>handle_shuffle\<close>. The offset and the width must be Python integers; the source
  must be a vector with one element, of a float type of at most 32 bits.
\<close>

definition handle_shuffle :: handler where
  "handle_shuffle emit_rec emitter n =
     (case args n of
        [src, offset, width] \<Rightarrow>
          (case (offset, width) of
             (ArgInt off, ArgInt w) \<Rightarrow>
               (case cast_py_value emitter src None of
                  Inl e \<Rightarrow> Inl e
                | Inr (src_v, emitter1) \<Rightarrow>
                    (case cast_py_value emitter1 offset (Some (IntegerType 32)) of
                       Inl e \<Rightarrow> Inl e
                     | Inr (offset_v, emitter2) \<Rightarrow>
                         (case cast_py_value emitter2 width (Some (IntegerType 32)) of
                            Inl e \<Rightarrow> Inl e
                          | Inr (width_v, emitter3) \<Rightarrow>
                              (if \<not> is_vector_type (type_of src_v) then
                                 Inl (NotImplementedError ''Scalar src is not implemented yet for shuffleOp.'')
                               else if prod_list (vector_shape (type_of src_v)) \<noteq> 1 then
                                 Inl (NotImplementedError ''Currently only support unit vector for shuffleOp.'')
                               else
                                 (let static_pos = replicate (length (vector_shape (type_of src_v))) 0;
                                      element = Extract src_v static_pos;
                                      element_original_type = type_of element
                                  in if \<not> is_float_type (type_of element) then
                                       Inl (NotImplementedError ''Currently only support shuffle for floats.'')
                                     else if type_width (type_of element) > 32 then
                                       Inl (ValueError ''Cannot shuffle more than 32 bit.'')
                                     else
                                       (let element1 =
                                              (if type_width (type_of element) < 32
                                               then ExtF F32Type element else element);
                                            shuffled_val = ShuffleXor element1 offset_v width_v;
                                            shuffled_val1 =
                                              (if element_original_type \<noteq> type_of shuffled_val
                                               then TruncF element_original_type shuffled_val
                                               else shuffled_val);
                                            vec_result = Broadcast (type_of src_v) shuffled_val1
                                        in Inr (bind_node_proxy emitter3 n vec_result)))))))
           | _ \<Rightarrow>
               Inl (NotImplementedError
                      ''Non-const width or offset is not yet implemented for shuffleOp.''))
      | _ \<Rightarrow> Inl (ValidationError ''Malformed arguments''))"

subsection \<open>Reads and writes\<close>

text \<open>The mapping argument of a read or write: \<^verbatim>\<open>None\<close> or an index mapping.\<close>

fun mapping_arg :: "py_arg \<Rightarrow> error + IndexMapping option" where
  "mapping_arg ArgNone = Inr None"
| "mapping_arg (ArgMapping m) = Inr (Some m)"
| "mapping_arg a = Inl (AttributeError ''is_identity'')"

definition emit_op :: "WaveEmitter \<Rightarrow> Operation \<Rightarrow> WaveEmitter" where
  "emit_op emitter operation = emitter\<lparr> ops := ops emitter @ [operation] \<rparr>"

text \<open>
  The loop of the read over its lanes under a non-identity mapping: one gather of a single
  element per lane, inserted into the result vector.
\<close>

fun gather_lanes ::
  "externals \<Rightarrow> WaveEmitter \<Rightarrow> Value \<Rightarrow> IndexSymbol list \<Rightarrow> (IndexSymbol \<times> IndexSequence) list \<Rightarrow>
   IndexMapping \<Rightarrow> Value \<Rightarrow> ir_type \<Rightarrow> Value \<Rightarrow> nat list \<Rightarrow> error + (Value \<times> WaveEmitter)" where
  "gather_lanes ext emitter kb_src in_shape idx mapping passthru vec_type1 result [] =
     Inr (result, emitter)"
| "gather_lanes ext emitter kb_src in_shape idx mapping passthru vec_type1 result (i # lanes) =
     (case construct_gather_scatter_indices ext emitter in_shape idx mapping 1 True (int i) of
        Inl err \<Rightarrow> Inl err
      | Inr ((start_indices, offsets_vec, msk), emitter1) \<Rightarrow>
          (let res = Gather vec_type1 kb_src start_indices offsets_vec msk passthru;
               emitter2 = emit_op emitter1 (ValueOp res);
               res1 = Extract res [0];
               result1 = Insert res1 result [i]
           in gather_lanes ext emitter2 kb_src in_shape idx mapping passthru vec_type1 result1
                lanes))"

text \<open>
  \<^verbatim>\<open>handle_read\<close>. The number of elements per thread is an integer literal here
  (\<^verbatim>\<open>cast_py_literal\<close> leaves it as it is); a negative one cannot be the size of a
  vector type.
\<close>

definition handle_read :: "externals \<Rightarrow> handler" where
  "handle_read ext emit_rec emitter n =
     (case args n of
        [memory, elements_per_thread, mapping, dep] \<Rightarrow>
          (case elements_per_thread of
             ArgInt k \<Rightarrow>
               (case cast_kernel_buffer emitter memory of
                  Inl err \<Rightarrow> Inl err
                | Inr ((kb_src, kb_ir_type), emitter1) \<Rightarrow>
                    (case node_index n of
                       None \<Rightarrow> Inl (ValidationError ''codegen expected read to have index attr.'')
                     | Some idx \<Rightarrow>
                         (if k < 0 then Inl (ValueError ''negative vector size'')
                          else
                            (let element_t = element_type kb_ir_type;
                                 vector_type = VectorType [nat k] element_t
                             in case memory of
                                  ArgNode m \<Rightarrow>
                                    (case mapping_arg mapping of
                                       Inl err \<Rightarrow> Inl err
                                     | Inr mp \<Rightarrow>
                                         (case (case mp of
                                                  None \<Rightarrow> None
                                                | Some mapping' \<Rightarrow>
                                                    (if is_identity_mapping mapping'
                                                          (Some (symbolic_shape m)) None
                                                     then None else Some mapping')) of
                                            None \<Rightarrow>
                                              (case build_start_indices emitter1 idx of
                                                 Inl err \<Rightarrow> Inl err
                                               | Inr start_indices \<Rightarrow>
                                                   (case build_mask ext emitter1 idx (nat k) of
                                                      Inl err \<Rightarrow> Inl err
                                                    | Inr (msk, emitter2) \<Rightarrow>
                                                        (case (case msk of
                                                                 None \<Rightarrow> None
                                                               | Some m' \<Rightarrow>
                                                                   (if address_space n = SHARED_ADDRESS_SPACE
                                                                    then None else Some m')) of
                                                           None \<Rightarrow>
                                                             (let result = Load vector_type kb_src start_indices
                                                              in Inr (bind_node_proxy
                                                                        (emit_op emitter2 (ValueOp result))
                                                                        n result))
                                                         | Some m' \<Rightarrow>
                                                             (case get_constant_attr 0 element_t of
                                                                Inl err \<Rightarrow> Inl err
                                                              | Inr zero_attr \<Rightarrow>
                                                                  (let zero = Constant element_t zero_attr;
                                                                       passthru = Splat vector_type zero;
                                                                       result = MaskedLoad vector_type kb_src
                                                                                  start_indices m' passthru
                                                                   in Inr (bind_node_proxy
                                                                             (emit_op emitter2 (ValueOp result))
                                                                             n result))))))
                                          | Some mapping' \<Rightarrow>
                                              (case get_constant_attr 0 element_t of
                                                 Inl err \<Rightarrow> Inl err
                                               | Inr zero_attr \<Rightarrow>
                                                   (let zero = Constant element_t zero_attr;
                                                        result0 = Splat vector_type zero;
                                                        vec_type1 = VectorType [1] element_t;
                                                        passthru = Splat vec_type1 zero
                                                    in case gather_lanes ext emitter1 kb_src
                                                              (symbolic_shape m) idx mapping' passthru
                                                              vec_type1 result0 [0 ..< nat k] of
                                                         Inl err \<Rightarrow> Inl err
                                                       | Inr (result, emitter2) \<Rightarrow>
                                                           Inr (bind_node_proxy emitter2 n result)))))
                                | _ \<Rightarrow> Inl (ValueError ''Expected an fx.Node'')))))
           | _ \<Rightarrow> Inl (CodegenError ''Cannot convert value to a literal''))
      | _ \<Rightarrow> Inl (ValidationError ''Malformed arguments''))"

text \<open>\<^verbatim>\<open>handle_write\<close>.\<close>

definition handle_write :: "externals \<Rightarrow> handler" where
  "handle_write ext emit_rec emitter n =
     (case args n of
        [register, memory, elements_per_thread, mapping] \<Rightarrow>
          (case cast_kernel_buffer emitter memory of
             Inl err \<Rightarrow> Inl err
           | Inr ((kb_dest, kb_ir_type), emitter1) \<Rightarrow>
               (case cast_vector emitter1 register (Some (element_type kb_ir_type)) of
                  Inl err \<Rightarrow> Inl err
                | Inr (insert_vector, emitter2) \<Rightarrow>
                    (case elements_per_thread of
                       ArgInt k \<Rightarrow>
                         (if map int (vector_shape (type_of insert_vector)) \<noteq> [k]
                          then Inl (AssertionError ''Shape does not match'')
                          else
                            (case node_index n of
                               None \<Rightarrow>
                                 Inl (ValidationError ''codegen expected read to have index attr.'')
                             | Some idx \<Rightarrow>
                                 (case (register, memory) of
                                    (ArgNode reg, ArgNode mem) \<Rightarrow>
                                      (case mapping_arg mapping of
                                         Inl err \<Rightarrow> Inl err
                                       | Inr mp \<Rightarrow>
                                           (case (case mp of
                                                    None \<Rightarrow> None
                                                  | Some mapping' \<Rightarrow>
                                                      (if is_identity_mapping mapping'
                                                            (Some (symbolic_shape reg))
                                                            (Some (symbolic_shape mem))
                                                       then None else Some mapping')) of
                                              None \<Rightarrow>
                                                (case build_start_indices emitter2 idx of
                                                   Inl err \<Rightarrow> Inl err
                                                 | Inr start_indices \<Rightarrow>
                                                     (case build_mask ext emitter2 idx (nat k) of
                                                        Inl err \<Rightarrow> Inl err
                                                      | Inr (msk, emitter3) \<Rightarrow>
                                                          (case (case msk of
                                                                   None \<Rightarrow> None
                                                                 | Some m' \<Rightarrow>
                                                                     (if address_space n = SHARED_ADDRESS_SPACE
                                                                      then None else Some m')) of
                                                             None \<Rightarrow>
                                                               Inr (emit_op emitter3
                                                                      (StoreOp insert_vector kb_dest start_indices))
                                                           | Some m' \<Rightarrow>
                                                               Inr (emit_op emitter3
                                                                      (MaskedStoreOp kb_dest start_indices m'
                                                                         insert_vector)))))
                                            | Some mapping' \<Rightarrow>
                                                (if symbolic_shape reg \<noteq> input_shape mapping'
                                                 then Inl (AssertionError
                                                        ''non-identity input mapping is not supported yet'')
                                                 else
                                                   (case construct_gather_scatter_indices ext emitter2
                                                           (symbolic_shape mem) idx mapping' (nat k) False 0 of
                                                      Inl err \<Rightarrow> Inl err
                                                    | Inr ((start_indices, offsets_vec, msk), emitter3) \<Rightarrow>
                                                        (if k = 1
                                                         then Inr (emit_op emitter3
                                                                     (MaskedStoreOp kb_dest start_indices msk
                                                                        insert_vector))
                                                         else Inr (emit_op emitter3
                                                                     (ScatterOp kb_dest start_indices
                                                                        offsets_vec msk insert_vector)))))))
                                  | _ \<Rightarrow> Inl (ValueError ''Expected an fx.Node''))))
                     | _ \<Rightarrow> Inl (CodegenError ''Cannot convert value to a literal''))))
      | _ \<Rightarrow> Inl (ValidationError ''Malformed arguments''))"

subsection \<open>Reduction loops\<close>

text \<open>
  \<^verbatim>\<open>pytree.tree_flatten\<close>: the leaves of nested tuples and lists, in order;
  \<^verbatim>\<open>None\<close> is a leaf.
\<close>

fun tree_flatten :: "py_arg \<Rightarrow> py_arg list" where
  "tree_flatten (ArgTuple xs) = concat (map tree_flatten xs)"
| "tree_flatten a = [a]"

fun cast_py_values :: "WaveEmitter \<Rightarrow> py_arg list \<Rightarrow> error + (Value list \<times> WaveEmitter)" where
  "cast_py_values emitter [] = Inr ([], emitter)"
| "cast_py_values emitter (a # as) =
     (case cast_py_value emitter a None of
        Inl e \<Rightarrow> Inl e
      | Inr (v, emitter1) \<Rightarrow>
          (case cast_py_values emitter1 as of
             Inl e \<Rightarrow> Inl e
           | Inr (vs, emitter2) \<Rightarrow> Inr (v # vs, emitter2)))"

text \<open>
  Modelled from the spec: \<^verbatim>\<open>iter_args\<close> and \<^verbatim>\<open>captured_vars\<close> of the
  reduction's custom op (not part of the sources at hand) are the nested graph's
  placeholders for carried values and for captured values.
\<close>

definition iter_args :: "node list \<Rightarrow> node list" where
  "iter_args g = filter (\<lambda>x. node_op x = ''placeholder'' \<and> is_iter_arg x) g"

definition captured_vars :: "node list \<Rightarrow> node list" where
  "captured_vars g = filter (\<lambda>x. node_op x = ''placeholder'' \<and> \<not> is_iter_arg x) g"

text \<open>
  \<^verbatim>\<open>for i, v in enumerate(forOp.inner_iter_args): bind_node_proxy(iter_args[i], v)\<close>
\<close>

fun bind_iter_args :: "WaveEmitter \<Rightarrow> node list \<Rightarrow> Value list \<Rightarrow> error + WaveEmitter" where
  "bind_iter_args emitter its [] = Inr emitter"
| "bind_iter_args emitter [] (v # vs) = Inl IndexError"
| "bind_iter_args emitter (it # its) (v # vs) = bind_iter_args (bind_node_proxy emitter it v) its vs"

text \<open>
  \<^verbatim>\<open>for root_v, subgraph_v in zip(implicit_capture, captured_vars):
     emitter._node_values[subgraph_v] = emitter.lookup_node_values(root_v)\<close>
\<close>

fun bind_captured :: "WaveEmitter \<Rightarrow> py_arg list \<Rightarrow> node list \<Rightarrow> error + WaveEmitter" where
  "bind_captured emitter (root_v # rs) (subgraph_v # ss) =
     (case root_v of
        ArgNode r \<Rightarrow>
          (case lookup_node_values emitter r of
             Inl e \<Rightarrow> Inl e
           | Inr (vs, emitter1) \<Rightarrow> bind_captured (bind_node_proxies emitter1 subgraph_v vs) rs ss)
      | _ \<Rightarrow> Inl (AssertionError ''isinstance(node, fx.Node)''))"
| "bind_captured emitter rs ss = Inr emitter"

definition for_results :: "nat \<Rightarrow> Value list \<Rightarrow> Value list" where
  "for_results l inits = map (\<lambda>i. ForResult l i (map type_of inits)) [0 ..< length inits]"

definition inner_iter_args :: "nat \<Rightarrow> Value list \<Rightarrow> Value list" where
  "inner_iter_args l inits = map (\<lambda>i. InnerIterArg l i (type_of (inits ! i))) [0 ..< length inits]"

definition index_constant :: "int \<Rightarrow> Value" where
  "index_constant v = Constant IndexType (IntegerAttr IndexType v)"

text \<open>
  \<^verbatim>\<open>handle_reduction\<close>. \<^verbatim>\<open>int(node.count)\<close> fails when the node has no trip
  count. The check \<^verbatim>\<open>if not step\<close> of the source tests a freshly built constant,
  which is never false, so it has no branch here. The loop is created at the current
  insertion point and its body is emitted into a block of its own; the operations of the
  enclosing block are put back once the body is done.
\<close>

definition handle_reduction :: handler where
  "handle_reduction emit_rec emitter n =
     (case args n of
        [axis, init_args, subgraph, implicit_capture] \<Rightarrow>
          (case cast_py_values emitter (tree_flatten init_args) of
             Inl e \<Rightarrow> Inl e
           | Inr (flat_init_args, emitter1) \<Rightarrow>
               (case node_count n of
                  None \<Rightarrow> Inl (AttributeError ''count'')
                | Some cnt \<Rightarrow>
                    (case (axis, subgraph, implicit_capture) of
                       (ArgSymbol ax, ArgStr subgraph_name, ArgTuple captures) \<Rightarrow>
                         (let start_v = index_constant 0;
                              end_v = index_constant cnt;
                              step_v = index_constant 1;
                              l = next_loop emitter1;
                              outer_ops = ops emitter1;
                              emitter2 = emitter1\<lparr> next_loop := Suc l,
                                induction_vars :=
                                  AList.update ax (InductionVariable l) (induction_vars emitter1),
                                ops := [] \<rparr>
                          in case map_of (subgraphs emitter2) subgraph_name of
                               None \<Rightarrow> Inl KeyError
                             | Some g \<Rightarrow>
                                 (case bind_iter_args emitter2 (iter_args g)
                                         (inner_iter_args l flat_init_args) of
                                    Inl e \<Rightarrow> Inl e
                                  | Inr emitter3 \<Rightarrow>
                                      (case bind_captured emitter3 captures (captured_vars g) of
                                         Inl e \<Rightarrow> Inl e
                                       | Inr emitter4 \<Rightarrow>
                                           (case emit_rec emitter4 g of
                                              Inl e \<Rightarrow> Inl e
                                            | Inr (return_values, emitter5) \<Rightarrow>
                                                (case cast_py_values emitter5
                                                        (case return_values of
                                                           None \<Rightarrow> [ArgNone]
                                                         | Some rv \<Rightarrow> tree_flatten (ArgTuple rv)) of
                                                   Inl e \<Rightarrow> Inl e
                                                 | Inr (flat_ret_values, emitter6) \<Rightarrow>
                                                     (let forOp = ForOp l start_v end_v step_v
                                                            flat_init_args (ops emitter6) flat_ret_values;
                                                          emitter7 = emitter6\<lparr> ops := outer_ops @ [forOp] \<rparr>
                                                      in Inr (bind_node_proxies emitter7 n
                                                                (for_results l flat_init_args))))))))
                     | _ \<Rightarrow> Inl TypeError)))
      | _ \<Rightarrow> Inl (ValidationError ''Malformed arguments''))"

text \<open>
  \<^verbatim>\<open>value.owner.results\<close>: the results of the operation that defines a value. A
  loop result belongs to its loop, every other operation modelled here has one result, and
  the owner of a block argument is a block, which has no results.
\<close>

fun owner_results :: "Value \<Rightarrow> error + Value list" where
  "owner_results (ForResult l i ts) = Inr (map (\<lambda>j. ForResult l j ts) [0 ..< length ts])"
| "owner_results (BlockArgument k t) = Inl (AttributeError ''results'')"
| "owner_results (InductionVariable l) = Inl (AttributeError ''results'')"
| "owner_results (InnerIterArg l i t) = Inl (AttributeError ''results'')"
| "owner_results v = Inr [v]"

text \<open>Python indexing of a sequence: a negative index counts from the end.\<close>

definition py_getitem :: "'a list \<Rightarrow> int \<Rightarrow> error + 'a" where
  "py_getitem xs i =
     (let len = int (length xs); j = (if i < 0 then len + i else i)
      in if 0 \<le> j \<and> j < len then Inr (xs ! nat j) else Inl IndexError)"

definition handle_get_result :: handler where
  "handle_get_result emit_rec emitter n =
     (case args n of
        [value, res_idx] \<Rightarrow>
          (case value of
             ArgNode vn \<Rightarrow>
               (case lookup_node_values emitter vn of
                  Inl e \<Rightarrow> Inl e
                | Inr (vs, emitter1) \<Rightarrow>
                    (case vs of
                       [] \<Rightarrow> Inl IndexError
                     | v0 # _ \<Rightarrow>
                         (case owner_results v0 of
                            Inl e \<Rightarrow> Inl e
                          | Inr results \<Rightarrow>
                              (case res_idx of
                                 ArgInt i \<Rightarrow>
                                   (case py_getitem results i of
                                      Inl e \<Rightarrow> Inl e
                                    | Inr r \<Rightarrow> Inr (bind_node_proxy emitter1 n r))
                               | _ \<Rightarrow> Inl TypeError))))
           | _ \<Rightarrow> Inl (AssertionError ''isinstance(node, fx.Node)''))
      | _ \<Rightarrow> Inl (ValidationError ''Malformed arguments''))"

definition handle_shared_memory_barrier :: handler where
  "handle_shared_memory_barrier emit_rec emitter n =
     Inr (emitter\<lparr> ops := ops emitter @ [LdsBarrierOp] \<rparr>)"

definition handle_getitem :: handler where
  "handle_getitem emit_rec emitter n =
     Inl (NotImplementedError ''getitem: Currently only stub implementation'')"

section \<open>The dispatch engine\<close>

text \<open>
  \<^verbatim>\<open>_emit_graph\<close> and \<^verbatim>\<open>_emit_function_call_node\<close> over a handler table.
  A handler may emit a nested graph (the reduction does), so the two functions and the
  handlers are mutually recursive through graphs found by name; the first argument bounds
  the depth of that nesting and \<open>RecursionError\<close> is the result when it is used up.
\<close>

function (sequential)
  emit_graph ::
    "nat \<Rightarrow> (string \<times> handler) list \<Rightarrow> WaveEmitter \<Rightarrow> node list \<Rightarrow>
     error + (py_arg list option \<times> WaveEmitter)"
and
  emit_function_call_node ::
    "nat \<Rightarrow> (string \<times> handler) list \<Rightarrow> WaveEmitter \<Rightarrow> node \<Rightarrow> error + WaveEmitter"
where
  "emit_graph fuel H emitter [] = Inr (None, emitter)"
| "emit_graph fuel H emitter (n # rest) =
     (case (if node_op n = ''call_function'' \<or> node_op n = ''call_method''
            then emit_function_call_node fuel H emitter n else Inr emitter) of
        Inl e \<Rightarrow> Inl e
      | Inr emitter1 \<Rightarrow>
          (if node_op n = ''output'' then Inr (Some (args n), emitter1)
           else emit_graph fuel H emitter1 rest))"
| "emit_function_call_node 0 H emitter n = Inl RecursionError"
| "emit_function_call_node (Suc k) H emitter n =
     (case map_of H (tkw_op_name n) of
        None \<Rightarrow> Inl (CodegenError ''No handler registered for op'')
      | Some h \<Rightarrow> h (\<lambda>e g. emit_graph k H e g) emitter n)"
  by pat_completeness auto
termination
  by (relation "measures [
        (\<lambda>x. case x of Inl (fuel, H, e, g) \<Rightarrow> fuel | Inr (fuel, H, e, n) \<Rightarrow> fuel),
        (\<lambda>x. case x of Inl (fuel, H, e, g) \<Rightarrow> Suc (length g) | Inr (fuel, H, e, n) \<Rightarrow> 0)]")
     auto

definition OP_HANDLERS :: "externals \<Rightarrow> (string \<times> handler) list" where
  "OP_HANDLERS ext =
     [(''read'', handle_read ext),
      (''write'', handle_write ext),
      (''shuffle'', handle_shuffle),
      (''reduction'', handle_reduction),
      (''shared_memory_barrier'', handle_shared_memory_barrier),
      (''get_result'', handle_get_result),
      (''getitem'', handle_getitem)]"

text \<open>\<^verbatim>\<open>emit(graph)\<close>: the program invariants, then the graph (the root graph by default).\<close>

definition emit ::
  "nat \<Rightarrow> (string \<times> handler) list \<Rightarrow> WaveEmitter \<Rightarrow> node list option \<Rightarrow> error + WaveEmitter" where
  "emit fuel H emitter graph =
     (case emit_program_invariants emitter of
        Inl e \<Rightarrow> Inl e
      | Inr emitter1 \<Rightarrow>
          (case emit_graph fuel H emitter1
                  (case graph of None \<Rightarrow> root_graph emitter1 | Some g \<Rightarrow> g) of
             Inl e \<Rightarrow> Inl e
           | Inr (r, emitter2) \<Rightarrow> Inr emitter2))"

section \<open>Shapes of emitted code used in the statements\<close>

text \<open>Integer extensions (zero and sign extension), as opposed to the float extension.\<close>

fun is_integer_extension :: "Value \<Rightarrow> bool" where
  "is_integer_extension (ExtSI t v) = True"
| "is_integer_extension (ExtUI t v) = True"
| "is_integer_extension v = False"

definition i32_constant :: "int \<Rightarrow> Value" where
  "i32_constant i = Constant (IntegerType 32) (IntegerAttr (IntegerType 32) i)"

text \<open>
  The value a shuffle of the vector \<open>v\<close> is expected to produce: the element at position
  zero, extended to \<open>f32\<close> when narrower, exchanged across lanes by exclusive-or, truncated
  back when it was extended, and broadcast to the type of \<open>v\<close>.
\<close>

definition shuffle_result :: "Value \<Rightarrow> int \<Rightarrow> int \<Rightarrow> Value" where
  "shuffle_result v off w =
     (let el = Extract v (replicate (length (vector_shape (type_of v))) 0);
          t = element_type (type_of v)
      in Broadcast (type_of v)
           (if type_width t < 32
            then TruncF t (ShuffleXor (ExtF F32Type el) (i32_constant off) (i32_constant w))
            else ShuffleXor el (i32_constant off) (i32_constant w)))"











text \<open>The value \<open>v\<close> is a scalar of index type that evaluates to \<open>p\<close>.\<close>

definition idx_val :: "runtime \<Rightarrow> Value \<Rightarrow> index \<Rightarrow> bool" where
  "idx_val rt v p = (type_of v = IndexType \<and> eval rt v = Some (Scalar (IndexVal p)))"




section \<open>Concrete scenarios\<close>

text \<open>
  Collaborators for the scenarios: no dimension is bounded, and the strides are those of
  the row-major layout of the static shape.
\<close>

fun static_shape :: "IndexingContext \<Rightarrow> IndexSymbol list \<Rightarrow> int list option" where
  "static_shape ctx [] = Some []"
| "static_shape ctx (d # ds) =
     (case map_of (idxc_subs ctx) d of
        None \<Rightarrow> None
      | Some v \<Rightarrow> (case static_shape ctx ds of None \<Rightarrow> None | Some vs \<Rightarrow> Some (v # vs)))"

fun row_major :: "int list \<Rightarrow> int list" where
  "row_major [] = []"
| "row_major (v # vs) = prod_list vs # row_major vs"

definition unbounded_externals :: externals where
  "unbounded_externals =
     \<lparr> find_index_bounds = (\<lambda>cs idx. None),
       strides_from_symbolic_shape = (\<lambda>ctx shape. map_option row_major (static_shape ctx shape)) \<rparr>"

text \<open>
  The shuffle scenario: a half-width float vector of one element, bound to the first
  kernel parameter, shuffled with offset 16 and width 32.
\<close>

definition f16_unit_vector :: ir_type where
  "f16_unit_vector = VectorType [1] (FloatType 16)"

definition shuffle_src :: node where
  "shuffle_src =
     Node 0 ''placeholder'' ''placeholder'' [] None None [] (index_symbol ''GLOBAL'') False"

definition shuffle_node :: node where
  "shuffle_node =
     Node 1 ''call_function'' ''shuffle'' [ArgNode shuffle_src, ArgInt 16, ArgInt 32]
       None None [] (index_symbol ''GLOBAL'') False"

definition shuffle_resolve :: "nat \<Rightarrow> error + Value" where
  "shuffle_resolve k = (if k = 0 then Inr (BlockArgument 0 f16_unit_vector) else Inl KeyError)"

definition empty_idxc :: IndexingContext where
  "empty_idxc = \<lparr> idxc_subs = [], special_subs = [] \<rparr>"

definition shuffle_emitter :: "(nat \<times> Value list) list \<Rightarrow> WaveEmitter" where
  "shuffle_emitter cls =
     new_WaveEmitter cls empty_idxc [BlockArgument 0 f16_unit_vector] shuffle_resolve
       [shuffle_node] [] [] []"

text \<open>
  The reduction scenario: axis \<open>K\<close> with trip count 4 and one carried value; the body
  shuffles the carried value and yields it; the result is selected with index 0.
\<close>

definition red_init :: node where
  "red_init =
     Node 10 ''placeholder'' ''placeholder'' [] None None [] (index_symbol ''GLOBAL'') False"

definition red_acc :: node where
  "red_acc =
     Node 11 ''placeholder'' ''placeholder'' [] None None [] (index_symbol ''GLOBAL'') True"

definition red_body_shuffle :: node where
  "red_body_shuffle =
     Node 12 ''call_function'' ''shuffle'' [ArgNode red_acc, ArgInt 16, ArgInt 32]
       None None [] (index_symbol ''GLOBAL'') False"

definition red_output :: node where
  "red_output =
     Node 13 ''output'' ''output'' [ArgTuple [ArgNode red_body_shuffle]]
       None None [] (index_symbol ''GLOBAL'') False"

definition red_node :: node where
  "red_node =
     Node 14 ''call_function'' ''reduction''
       [ArgSymbol (index_symbol ''K''), ArgTuple [ArgNode red_init], ArgStr ''region_0'',
        ArgTuple []]
       None (Some 4) [] (index_symbol ''GLOBAL'') False"

definition red_get_result :: node where
  "red_get_result =
     Node 15 ''call_function'' ''get_result'' [ArgNode red_node, ArgInt 0]
       None None [] (index_symbol ''GLOBAL'') False"

definition red_resolve :: "nat \<Rightarrow> error + Value" where
  "red_resolve k = (if k = 10 then Inr (BlockArgument 0 f16_unit_vector) else Inl KeyError)"

definition red_emitter :: WaveEmitter where
  "red_emitter =
     new_WaveEmitter [] empty_idxc [BlockArgument 0 f16_unit_vector] red_resolve
       [red_init, red_node, red_get_result]
       [(''region_0'', [red_acc, red_body_shuffle, red_output])] [] []"


text \<open>Shuffles that must be refused: a symbolic offset, and a 64-bit float operand.\<close>

definition shuffle_dynamic_node :: node where
  "shuffle_dynamic_node =
     Node 2 ''call_function'' ''shuffle''
       [ArgNode shuffle_src, ArgSymbol (index_symbol ''OFFSET''), ArgInt 32]
       None None [] (index_symbol ''GLOBAL'') False"

definition f64_unit_vector :: ir_type where
  "f64_unit_vector = VectorType [1] (FloatType 64)"

definition shuffle_wide_resolve :: "nat \<Rightarrow> error + Value" where
  "shuffle_wide_resolve k = Inr (BlockArgument 0 f64_unit_vector)"

definition shuffle_wide_emitter :: WaveEmitter where
  "shuffle_wide_emitter =
     new_WaveEmitter [] empty_idxc [BlockArgument 0 f64_unit_vector] shuffle_wide_resolve
       [shuffle_node] [] [] []"


text \<open>
  Reads and writes with a mapping, on a buffer of static shape \<open>M = 4\<close>, \<open>N = 8\<close>:
  one mapping permutes its input side and is the identity on its output side, the other is
  the identity on its input side and permutes its output side.
\<close>

definition dim_M :: IndexSymbol where "dim_M = index_symbol ''M''"
definition dim_N :: IndexSymbol where "dim_N = index_symbol ''N''"

definition static_idxc :: IndexingContext where
  "static_idxc = \<lparr> idxc_subs = [(dim_M, 4), (dim_N, 8)], special_subs = [] \<rparr>"

definition f16_memref :: ir_type where "f16_memref = MemRefType [4, 8] (FloatType 16)"

definition mem_a :: node where
  "mem_a = Node 20 ''placeholder'' ''placeholder'' [] None None [dim_M, dim_N] (index_symbol ''GLOBAL'') False"

definition transposed_read_mapping :: IndexMapping where
  "transposed_read_mapping =
     \<lparr> num_iterators = 2,
       input_mapping = [(dim_M, Symbol (iterator 1)), (dim_N, Symbol (iterator 0))],
       output_mapping = [(dim_N, Symbol (iterator 0)), (dim_M, Symbol (iterator 1))] \<rparr>"

definition output_remap_mapping :: IndexMapping where
  "output_remap_mapping =
     \<lparr> num_iterators = 2,
       input_mapping = [(dim_M, Symbol (iterator 0)), (dim_N, Symbol (iterator 1))],
       output_mapping = [(dim_N, Symbol (iterator 1)), (dim_M, Symbol (iterator 0))] \<rparr>"

definition read_index :: "(IndexSymbol \<times> IndexSequence) list" where
  "read_index =
     [(dim_N, IndexSequence (Symbol WORKGROUP_0) (Integer 1) (Integer 1)),
      (dim_M, IndexSequence (Mul [Symbol THREAD_0, Integer 2]) (Integer 2) (Integer 1))]"

definition read_node :: "IndexMapping \<Rightarrow> node" where
  "read_node m = Node 21 ''call_function'' ''read'' [ArgNode mem_a, ArgInt 2, ArgMapping m, ArgNone]
       (Some read_index) None [dim_N, dim_M] (index_symbol ''GLOBAL'') False"

definition read_resolve :: "nat \<Rightarrow> error + Value" where
  "read_resolve k = (if k = 20 then Inr (BlockArgument 0 f16_memref) else Inl KeyError)"

definition read_emitter :: "IndexMapping \<Rightarrow> WaveEmitter" where
  "read_emitter m = new_WaveEmitter [] static_idxc [BlockArgument 0 f16_memref] read_resolve
       [mem_a, read_node m] [] [] []"


definition f16_memref_b :: ir_type where "f16_memref_b = MemRefType [8, 4] (FloatType 16)"

definition reg_c :: node where
  "reg_c = Node 22 ''placeholder'' ''placeholder'' [] None None [dim_M, dim_N] (index_symbol ''GLOBAL'') False"

definition mem_b :: node where
  "mem_b = Node 23 ''placeholder'' ''placeholder'' [] None None [dim_N, dim_M] (index_symbol ''GLOBAL'') False"

definition write_index :: "(IndexSymbol \<times> IndexSequence) list" where
  "write_index =
     [(dim_M, IndexSequence (Symbol WORKGROUP_0) (Integer 1) (Integer 1)),
      (dim_N, IndexSequence (Mul [Symbol THREAD_0, Integer 2]) (Integer 2) (Integer 1))]"

definition write_node :: "IndexMapping \<Rightarrow> node" where
  "write_node m = Node 24 ''call_function'' ''write'' [ArgNode reg_c, ArgNode mem_b, ArgInt 2, ArgMapping m]
       (Some write_index) None [dim_N, dim_M] (index_symbol ''GLOBAL'') False"

definition write_resolve :: "nat \<Rightarrow> error + Value" where
  "write_resolve k =
     (if k = 22 then Inr (BlockArgument 1 (VectorType [2] (FloatType 16)))
      else if k = 23 then Inr (BlockArgument 0 f16_memref_b) else Inl KeyError)"

definition write_emitter :: "IndexMapping \<Rightarrow> WaveEmitter" where
  "write_emitter m = new_WaveEmitter [] static_idxc [BlockArgument 0 f16_memref_b] write_resolve
       [reg_c, mem_b, write_node m] [] [] []"



section \<open>Properties of the value cache\<close>

lemmas shuffle_scenario =
  shuffle_emitter_def new_WaveEmitter_def emit_program_invariants_def OP_HANDLERS_def
  shuffle_node_def shuffle_src_def handle_shuffle_def cast_py_value_def
  lookup_node_values_def shuffle_resolve_def bind_node_proxy_def empty_idxc_def
  f16_unit_vector_def emit_def Let_def

lemma emit_program_invariants_node_values:
  "emit_program_invariants e = Inr e' \<Longrightarrow> node_values e' = node_values e"
  by (auto simp: emit_program_invariants_def split: sum.splits)

text \<open>
  C2, as stated: a binding made during a first emission pass is not visible when a second
  pass, run by another emitter instance, starts. It fails: after a pass over the shuffle
  scenario, a second instance that has just run \<^verbatim>\<open>emit_program_invariants\<close> still
  finds the shuffle node bound.
\<close>

theorem C2_cache_visible_in_second_pass_counterexample:
  "(case emit 1 (OP_HANDLERS unbounded_externals) (shuffle_emitter []) None of
      Inl e \<Rightarrow> False
    | Inr e1 \<Rightarrow>
        (case emit_program_invariants (shuffle_emitter (node_values e1)) of
           Inl e \<Rightarrow> False
         | Inr e2 \<Rightarrow> map_of (node_values e2) (nid shuffle_node) \<noteq> None))"
  by (simp add: shuffle_scenario)

text \<open>
  C2, amended: the value cache is one dictionary of the emitter class, shared by all
  instances and never cleared. When a pass of one instance ends with a node bound to
  values \<open>vs\<close>, a second instance constructed afterwards starts its pass with the same
  cache, and looking the node up there returns \<open>vs\<close> without changing the cache.
\<close>

theorem C2_cache_shared_between_instances:
  assumes "emit fuel H e0 g0 = Inr e1"
    and "map_of (node_values e1) (nid n) = Some vs"
    and "emit_program_invariants (new_WaveEmitter (node_values e1) ctx a r g sg cs ds) = Inr e2"
  shows "node_values e2 = node_values e1 \<and> lookup_node_values e2 n = Inr (vs, e2)"
proof -
  have "node_values e2 = node_values (new_WaveEmitter (node_values e1) ctx a r g sg cs ds)"
    using assms(3) by (rule emit_program_invariants_node_values)
  then have nv: "node_values e2 = node_values e1"
    by (simp add: new_WaveEmitter_def)
  then show ?thesis
    using assms(2) by (simp add: lookup_node_values_def)
qed

theorem C2_cache_shared_between_instances_witness:
  "\<exists>e1 e2 vs.
     emit 1 (OP_HANDLERS unbounded_externals) (shuffle_emitter []) None = Inr e1
     \<and> map_of (node_values e1) (nid shuffle_node) = Some vs
     \<and> emit_program_invariants (shuffle_emitter (node_values e1)) = Inr e2
     \<and> node_values e2 = node_values e1 \<and> lookup_node_values e2 shuffle_node = Inr (vs, e2)"
proof -
  obtain e1 where e1: "emit 1 (OP_HANDLERS unbounded_externals) (shuffle_emitter []) None = Inr e1"
    by (simp add: shuffle_scenario)
  obtain vs where vs: "map_of (node_values e1) (nid shuffle_node) = Some vs"
    using e1 by (auto simp: shuffle_scenario)
  obtain e2 where e2: "emit_program_invariants (shuffle_emitter (node_values e1)) = Inr e2"
    by (simp add: shuffle_emitter_def new_WaveEmitter_def emit_program_invariants_def
          f16_unit_vector_def)
  from C2_cache_shared_between_instances [OF e1 vs e2 [unfolded shuffle_emitter_def]]
  show ?thesis using e1 vs e2 by blast
qed

text \<open>
  C6, as stated: binding a node that already has an entry in the cache is rejected and the
  first binding stays. It fails: a second \<^verbatim>\<open>bind_node_proxy\<close> for the same node
  goes through and the cache holds the second value.
\<close>

theorem C6_rebind_overwrites_counterexample:
  "map_of (node_values (bind_node_proxy (shuffle_emitter []) shuffle_src (ThreadId 0)))
      (nid shuffle_src) = Some [ThreadId 0]
   \<and> map_of (node_values (bind_node_proxy
                 (bind_node_proxy (shuffle_emitter []) shuffle_src (ThreadId 0))
                 shuffle_src (ThreadId 1)))
      (nid shuffle_src) = Some [ThreadId 1]"
  by (simp add: shuffle_scenario)

text \<open>
  C6, amended: \<^verbatim>\<open>bind_node_proxy\<close> and \<^verbatim>\<open>bind_node_proxies\<close> never fail and
  carry no check for an existing entry: whatever the cache held for the node, after the
  call it holds exactly the values just bound, so a second bind replaces the first.
\<close>

theorem C6_bind_replaces_entry:
  "map_of (node_values (bind_node_proxy emitter n proxy)) (nid n) = Some [proxy]
   \<and> map_of (node_values (bind_node_proxies emitter n proxies)) (nid n) = Some proxies
   \<and> map_of (node_values (bind_node_proxy (bind_node_proxy emitter n first) n second)) (nid n)
       = Some [second]"
  by (simp add: bind_node_proxy_def bind_node_proxies_def update_conv')

section \<open>Properties of the shuffle lowering\<close>

lemma shuffle_nonconst:
  assumes "args n = [src, offset, width]"
    and "(\<forall>i. offset \<noteq> ArgInt i) \<or> (\<forall>i. width \<noteq> ArgInt i)"
  shows "handle_shuffle r e n =
           Inl (NotImplementedError
                  ''Non-const width or offset is not yet implemented for shuffleOp.'')"
  using assms by (auto simp: handle_shuffle_def split: py_arg.splits)

lemma shuffle_ok:
  assumes "args n = [src, ArgInt off, ArgInt w]"
    and "cast_py_value e src None = Inr (v, e1)"
    and "is_vector_type (type_of v)"
    and "prod_list (vector_shape (type_of v)) = 1"
    and "is_float_type (element_type (type_of v))"
    and "type_width (element_type (type_of v)) \<le> 32"
  shows "handle_shuffle r e n = Inr (bind_node_proxy e1 n (shuffle_result v off w))"
proof -
  obtain shape t where vt: "type_of v = VectorType shape t"
    using assms(3) by (cases "type_of v") auto
  obtain wd where t: "t = FloatType wd"
    using assms(5) vt by (cases t) auto
  show ?thesis
    using assms vt t
    by (auto simp: handle_shuffle_def cast_py_value_def shuffle_result_def i32_constant_def
          Let_def)
qed

lemma shuffle_bad:
  assumes "args n = [src, ArgInt off, ArgInt w]"
    and "cast_py_value e src None = Inr (v, e1)"
    and "\<not> (is_vector_type (type_of v) \<and> prod_list (vector_shape (type_of v)) = 1
            \<and> is_float_type (element_type (type_of v))
            \<and> type_width (element_type (type_of v)) \<le> 32)"
  shows "handle_shuffle r e n \<in>
           {Inl (NotImplementedError ''Scalar src is not implemented yet for shuffleOp.''),
            Inl (NotImplementedError ''Currently only support unit vector for shuffleOp.''),
            Inl (NotImplementedError ''Currently only support shuffle for floats.''),
            Inl (ValueError ''Cannot shuffle more than 32 bit.'')}"
proof (cases "type_of v")
  case (VectorType shape t)
  then show ?thesis
    using assms by (auto simp: handle_shuffle_def cast_py_value_def Let_def)
qed (use assms in \<open>auto simp: handle_shuffle_def cast_py_value_def Let_def\<close>)

text \<open>
  C8, as stated: an operand narrower than 32 bits is zero- or sign-extended before the
  shuffle. It fails: for the half-width float of the shuffle scenario the value handed to
  the shuffle is a float extension (\<^verbatim>\<open>arith.extf\<close>) of the extracted element, which
  is not an integer extension.
\<close>

theorem C8_shuffle_extends_with_extf_counterexample:
  "handle_shuffle (emit_graph 0 (OP_HANDLERS unbounded_externals))
      (shuffle_emitter [(0, [BlockArgument 0 f16_unit_vector])]) shuffle_node
     = Inr (bind_node_proxy (shuffle_emitter [(0, [BlockArgument 0 f16_unit_vector])])
              shuffle_node
              (Broadcast f16_unit_vector
                 (TruncF (FloatType 16)
                    (ShuffleXor (ExtF F32Type (Extract (BlockArgument 0 f16_unit_vector) [0]))
                       (i32_constant 16) (i32_constant 32)))))
   \<and> \<not> is_integer_extension (ExtF F32Type (Extract (BlockArgument 0 f16_unit_vector) [0]))"
  by (simp add: shuffle_scenario i32_constant_def)

text \<open>
  C8, amended: for every shuffle node with three arguments, a non-constant offset or width
  fails (\<^verbatim>\<open>NotImplementedError\<close>); with constant offset and width, an operand that is
  not a one-element vector of a float type of at most 32 bits fails
  (\<^verbatim>\<open>NotImplementedError\<close>, or \<^verbatim>\<open>ValueError\<close> for a wider float); otherwise the
  node is bound to \<open>shuffle_result\<close>: the operand's element is extracted, extended to
  \<open>f32\<close> by a float extension when narrower than 32 bits, shuffled by exclusive-or with
  the given offset and width, truncated back to its element type when it was extended, and
  broadcast to the operand's vector type.
\<close>

theorem C8_shuffle_lowering:
  "(args n = [src, offset, width]
      \<and> ((\<forall>i. offset \<noteq> ArgInt i) \<or> (\<forall>i. width \<noteq> ArgInt i))
    \<longrightarrow> handle_shuffle r e n =
          Inl (NotImplementedError
                 ''Non-const width or offset is not yet implemented for shuffleOp.''))
   \<and> (args n = [src, ArgInt off, ArgInt w] \<and> cast_py_value e src None = Inr (v, e1)
      \<longrightarrow> (if is_vector_type (type_of v) \<and> prod_list (vector_shape (type_of v)) = 1
               \<and> is_float_type (element_type (type_of v))
               \<and> type_width (element_type (type_of v)) \<le> 32
            then handle_shuffle r e n = Inr (bind_node_proxy e1 n (shuffle_result v off w))
            else handle_shuffle r e n \<in>
                   {Inl (NotImplementedError ''Scalar src is not implemented yet for shuffleOp.''),
                    Inl (NotImplementedError ''Currently only support unit vector for shuffleOp.''),
                    Inl (NotImplementedError ''Currently only support shuffle for floats.''),
                    Inl (ValueError ''Cannot shuffle more than 32 bit.'')}))"
  using shuffle_nonconst [of n src offset width r e]
    shuffle_ok [of n src off w e v e1 r] shuffle_bad [of n src off w e v e1 r]
  by (simp del: insert_iff)

theorem C8_shuffle_lowering_witness:
  "handle_shuffle (emit_graph 0 (OP_HANDLERS unbounded_externals)) (shuffle_emitter []) shuffle_dynamic_node
     = Inl (NotImplementedError
              ''Non-const width or offset is not yet implemented for shuffleOp.'')
   \<and> (\<exists>e1. cast_py_value (shuffle_emitter []) (ArgNode shuffle_src) None
               = Inr (BlockArgument 0 f16_unit_vector, e1)
          \<and> handle_shuffle (emit_graph 0 (OP_HANDLERS unbounded_externals)) (shuffle_emitter []) shuffle_node
               = Inr (bind_node_proxy e1 shuffle_node
                        (shuffle_result (BlockArgument 0 f16_unit_vector) 16 32)))
   \<and> handle_shuffle (emit_graph 0 (OP_HANDLERS unbounded_externals)) shuffle_wide_emitter shuffle_node
       \<in> {Inl (NotImplementedError ''Scalar src is not implemented yet for shuffleOp.''),
          Inl (NotImplementedError ''Currently only support unit vector for shuffleOp.''),
          Inl (NotImplementedError ''Currently only support shuffle for floats.''),
          Inl (ValueError ''Cannot shuffle more than 32 bit.'')}"
proof -
  let ?r = "emit_graph 0 (OP_HANDLERS unbounded_externals)"
  have a1: "args shuffle_dynamic_node
              = [ArgNode shuffle_src, ArgSymbol (index_symbol ''OFFSET''), ArgInt 32]"
    by (simp add: shuffle_dynamic_node_def)
  have c1: "handle_shuffle ?r (shuffle_emitter []) shuffle_dynamic_node
              = Inl (NotImplementedError
                       ''Non-const width or offset is not yet implemented for shuffleOp.'')"
    using C8_shuffle_lowering
            [where n = shuffle_dynamic_node and src = "ArgNode shuffle_src"
               and offset = "ArgSymbol (index_symbol ''OFFSET'')" and width = "ArgInt 32"
               and r = ?r and e = "shuffle_emitter []", THEN conjunct1]
      a1 by simp
  have a2: "args shuffle_node = [ArgNode shuffle_src, ArgInt 16, ArgInt 32]"
    by (simp add: shuffle_node_def)
  obtain e1 where k2: "cast_py_value (shuffle_emitter []) (ArgNode shuffle_src) None
                         = Inr (BlockArgument 0 f16_unit_vector, e1)"
    by (simp add: shuffle_scenario)
  have c2: "handle_shuffle ?r (shuffle_emitter []) shuffle_node
              = Inr (bind_node_proxy e1 shuffle_node
                       (shuffle_result (BlockArgument 0 f16_unit_vector) 16 32))"
    using C8_shuffle_lowering
            [where n = shuffle_node and src = "ArgNode shuffle_src" and off = 16 and w = 32
               and r = ?r and e = "shuffle_emitter []"
               and v = "BlockArgument 0 f16_unit_vector" and ?e1.0 = e1, THEN conjunct2]
      a2 k2 by (simp add: f16_unit_vector_def)
  obtain e3 where k3: "cast_py_value shuffle_wide_emitter (ArgNode shuffle_src) None
                         = Inr (BlockArgument 0 f64_unit_vector, e3)"
    by (simp add: shuffle_wide_emitter_def shuffle_wide_resolve_def new_WaveEmitter_def
          cast_py_value_def lookup_node_values_def shuffle_src_def)
  have c3: "handle_shuffle ?r shuffle_wide_emitter shuffle_node
              \<in> {Inl (NotImplementedError ''Scalar src is not implemented yet for shuffleOp.''),
                 Inl (NotImplementedError ''Currently only support unit vector for shuffleOp.''),
                 Inl (NotImplementedError ''Currently only support shuffle for floats.''),
                 Inl (ValueError ''Cannot shuffle more than 32 bit.'')}"
    using C8_shuffle_lowering
            [where n = shuffle_node and src = "ArgNode shuffle_src" and off = 16 and w = 32
               and r = ?r and e = shuffle_wide_emitter
               and v = "BlockArgument 0 f64_unit_vector" and ?e1.0 = e3, THEN conjunct2]
      a2 k3 by (simp add: f64_unit_vector_def del: insert_iff)
  show ?thesis using c1 k2 c2 c3 by blast
qed

section \<open>Properties of the reduction lowering\<close>

lemmas red_scenario =
  red_emitter_def red_init_def red_acc_def red_body_shuffle_def red_output_def red_node_def
  red_get_result_def red_resolve_def handle_reduction_def handle_get_result_def
  index_constant_def for_results_def inner_iter_args_def iter_args_def captured_vars_def
  bind_node_proxies_def py_getitem_def

lemma lookup_node_values_frame:
  "lookup_node_values e n = Inr (vs, e1) \<Longrightarrow>
   ops e1 = ops e \<and> next_loop e1 = next_loop e \<and> subgraphs e1 = subgraphs e"
  by (auto simp: lookup_node_values_def split: option.splits sum.splits)

lemma cast_py_value_frame:
  "cast_py_value e a t = Inr (v, e1) \<Longrightarrow>
   ops e1 = ops e \<and> next_loop e1 = next_loop e \<and> subgraphs e1 = subgraphs e"
  by (auto simp: cast_py_value_def Let_def
        split: py_arg.splits sum.splits list.splits error.splits
        dest: lookup_node_values_frame)

lemma cast_py_values_frame:
  "cast_py_values e as = Inr (vs, e1) \<Longrightarrow>
   ops e1 = ops e \<and> next_loop e1 = next_loop e \<and> subgraphs e1 = subgraphs e"
proof (induction as arbitrary: e vs)
  case Nil
  then show ?case by simp
next
  case (Cons a as)
  then show ?case
    by (auto split: sum.splits dest!: cast_py_value_frame)
qed

lemma reduction_no_count:
  "node_count n = None \<Longrightarrow> \<exists>err. handle_reduction r e n = Inl err"
  by (auto simp: handle_reduction_def split: list.splits sum.splits)

lemma reduction_loop:
  assumes "handle_reduction r e n = Inr e'"
  shows "\<exists>axis init_args subgraph implicit_capture inits e1 cnt body yields.
           args n = [axis, init_args, subgraph, implicit_capture]
         \<and> cast_py_values e (tree_flatten init_args) = Inr (inits, e1)
         \<and> node_count n = Some cnt
         \<and> ops e' = ops e @ [ForOp (next_loop e) (index_constant 0) (index_constant cnt)
                               (index_constant 1) inits body yields]
         \<and> map_of (node_values e') (nid n) = Some (for_results (next_loop e) inits)
         \<and> length (for_results (next_loop e) inits) = length inits"
  using assms
  by (auto simp: handle_reduction_def Let_def bind_node_proxies_def update_conv' for_results_def
        split: list.splits sum.splits option.splits py_arg.splits prod.splits
        dest!: cast_py_values_frame)

lemma get_result_selects:
  assumes "args m = [ArgNode rn, ArgInt i]"
    and "map_of (node_values e') (nid rn) = Some (for_results l inits)"
    and "0 \<le> i" and "i < int (length inits)"
  shows "handle_get_result r e' m
           = Inr (bind_node_proxy e' m (ForResult l (nat i) (map type_of inits)))
         \<and> for_results l inits ! nat i = ForResult l (nat i) (map type_of inits)"
proof -
  let ?ts = "map type_of inits"
  have lt: "nat i < length inits" using assms(3,4) by linarith
  then obtain x xs where ix: "inits = x # xs" by (cases inits) auto
  obtain rest where hd: "for_results l inits = ForResult l 0 ?ts # rest"
    unfolding for_results_def ix by (simp add: upt_conv_Cons del: upt_Suc)
  have lk: "lookup_node_values e' rn = Inr (for_results l inits, e')"
    using assms(2) by (simp add: lookup_node_values_def)
  have get: "py_getitem (map (\<lambda>j. ForResult l j ?ts) [0 ..< length ?ts]) i
               = Inr (ForResult l (nat i) ?ts)"
    using lt assms(3,4) by (simp add: py_getitem_def Let_def)
  have nth: "for_results l inits ! nat i = ForResult l (nat i) ?ts"
    using lt by (simp add: for_results_def)
  have "handle_get_result r e' m = Inr (bind_node_proxy e' m (ForResult l (nat i) ?ts))"
    unfolding handle_get_result_def using assms(1) lk hd get by simp
  then show ?thesis using nth by simp
qed

text \<open>
  C7: lowering a reduction node fails when the node has no trip count. When it succeeds, it
  has appended exactly one loop to the current block, from 0 to the node's trip count in
  steps of 1, carrying one value per flattened initial value, and it has bound the node to
  the loop's results, one per carried value. A result selection with index \<open>i\<close> on a
  node bound to a loop's results binds the loop's \<open>i\<close>-th result. (The failure for a
  missing trip count is Python's own for the missing attribute; the source has no
  exception class of the taxonomy's name.)
\<close>

theorem C7_reduction_lowering:
  "(node_count n = None \<longrightarrow> (\<exists>err. handle_reduction r e n = Inl err))
   \<and> (handle_reduction r e n = Inr e' \<longrightarrow>
        (\<exists>axis init_args subgraph implicit_capture inits e1 cnt body yields.
            args n = [axis, init_args, subgraph, implicit_capture]
          \<and> cast_py_values e (tree_flatten init_args) = Inr (inits, e1)
          \<and> node_count n = Some cnt
          \<and> ops e' = ops e @ [ForOp (next_loop e) (index_constant 0) (index_constant cnt)
                                (index_constant 1) inits body yields]
          \<and> map_of (node_values e') (nid n) = Some (for_results (next_loop e) inits)
          \<and> length (for_results (next_loop e) inits) = length inits))
   \<and> (args m = [ArgNode rn, ArgInt i]
        \<and> map_of (node_values e2) (nid rn) = Some (for_results l xs)
        \<and> 0 \<le> i \<and> i < int (length xs)
      \<longrightarrow> handle_get_result r e2 m
            = Inr (bind_node_proxy e2 m (ForResult l (nat i) (map type_of xs)))
          \<and> for_results l xs ! nat i = ForResult l (nat i) (map type_of xs))"
  using reduction_no_count [of n r e] reduction_loop [of r e n e']
    get_result_selects [of m rn i e2 l xs r]
  by blast

text \<open>
  The reduction scenario runs through: the pass returns, the block holds one loop from 0 to
  4 in steps of 1 with one carried value, and the selected result is result 0 of that loop.
\<close>

theorem C7_reduction_lowering_witness:
  "(\<exists>err. handle_reduction (emit_graph 1 (OP_HANDLERS unbounded_externals)) red_emitter
             (Node 14 ''call_function'' ''reduction'' (args red_node) None None []
                (index_symbol ''GLOBAL'') False) = Inl err)
   \<and> (\<exists>e' body yields.
          handle_reduction (emit_graph 1 (OP_HANDLERS unbounded_externals)) red_emitter red_node = Inr e'
        \<and> ops e' = [ForOp 0 (index_constant 0) (index_constant 4) (index_constant 1)
                      [BlockArgument 0 f16_unit_vector] body yields]
        \<and> map_of (node_values e') (nid red_node)
            = Some (for_results 0 [BlockArgument 0 f16_unit_vector])
        \<and> handle_get_result (emit_graph 0 (OP_HANDLERS unbounded_externals)) e' red_get_result
            = Inr (bind_node_proxy e' red_get_result (ForResult 0 0 [f16_unit_vector])))"
proof -
  let ?r = "emit_graph 1 (OP_HANDLERS unbounded_externals)"
  let ?n0 = "Node 14 ''call_function'' ''reduction'' (args red_node) None None []
               (index_symbol ''GLOBAL'') False"
  have c1: "\<exists>err. handle_reduction ?r red_emitter ?n0 = Inl err"
    using C7_reduction_lowering [where n = ?n0 and r = ?r and e = red_emitter, THEN conjunct1]
    by simp
  obtain e' where ok: "handle_reduction ?r red_emitter red_node = Inr e'"
    by (simp add: shuffle_scenario red_scenario)
  from C7_reduction_lowering
         [where n = red_node and r = ?r and e = red_emitter and e' = e',
          THEN conjunct2, THEN conjunct1] ok
  obtain axis init_args subgraph implicit_capture inits e1 cnt body yields where
    a: "args red_node = [axis, init_args, subgraph, implicit_capture]"
    and c: "cast_py_values red_emitter (tree_flatten init_args) = Inr (inits, e1)"
    and k: "node_count red_node = Some cnt"
    and o: "ops e' = ops red_emitter @ [ForOp (next_loop red_emitter) (index_constant 0)
              (index_constant cnt) (index_constant 1) inits body yields]"
    and b: "map_of (node_values e') (nid red_node)
              = Some (for_results (next_loop red_emitter) inits)"
    by blast
  have init_args: "init_args = ArgTuple [ArgNode red_init]" and cnt: "cnt = 4"
    using a k by (simp_all add: red_node_def)
  have inits: "inits = [BlockArgument 0 f16_unit_vector]"
    using c unfolding init_args
    by (simp add: shuffle_scenario red_scenario split: sum.splits)
  have o': "ops e' = [ForOp 0 (index_constant 0) (index_constant 4) (index_constant 1)
                        [BlockArgument 0 f16_unit_vector] body yields]"
    using o by (simp add: inits cnt red_emitter_def new_WaveEmitter_def)
  have b': "map_of (node_values e') (nid red_node)
              = Some (for_results 0 [BlockArgument 0 f16_unit_vector])"
    using b by (simp add: inits red_emitter_def new_WaveEmitter_def)
  have g: "handle_get_result (emit_graph 0 (OP_HANDLERS unbounded_externals)) e' red_get_result
             = Inr (bind_node_proxy e' red_get_result (ForResult 0 0 [f16_unit_vector]))"
    using C7_reduction_lowering
            [where m = red_get_result and rn = red_node and i = 0 and ?e2.0 = e' and l = 0
               and xs = "[BlockArgument 0 f16_unit_vector]"
               and r = "emit_graph 0 (OP_HANDLERS unbounded_externals)",
             THEN conjunct2, THEN conjunct2] b'
    by (simp add: red_get_result_def)
  show ?thesis using c1 ok o' b' g by blast
qed

section \<open>Properties of the symbolic index compiler\<close>

subsection \<open>Substitution and traversal\<close>

lemma subs_Integer: "subs ps (Integer n) = Integer n"
  by (induction ps) auto




lemma subs_Mod: "subs ps (Mod a b) = Mod (subs ps a) (subs ps b)"
  by (induction ps arbitrary: a b) auto









subsection \<open>Atoms\<close>






subsection \<open>Index values\<close>











subsection \<open>Deferred rationals\<close>
















subsection \<open>The broadcast rule\<close>

lemma broadcast_same: "type_of a = type_of b \<Longrightarrow> broadcast a b = Inr (a, b)"
  by (simp add: broadcast_def)

lemma broadcast_vec_scalar:
  assumes "type_of a = VectorType shape t" "type_of b = t" "\<not> is_vector_type t"
  shows "broadcast a b = Inr (a, Splat (VectorType shape t) b)
       \<and> broadcast b a = Inr (Splat (VectorType shape t) b, a)"
  using assms by (auto simp: broadcast_def check_vec_scalar_def)

lemma broadcast_mismatch:
  assumes "type_of a = VectorType s1 t1" "type_of b = VectorType s2 t2" "s1 \<noteq> s2"
    "\<not> is_vector_type t1" "\<not> is_vector_type t2"
  shows "broadcast a b = Inl (CodegenError ''Cannot broadcast'')"
  using assms by (auto simp: broadcast_def check_vec_scalar_def)

lemma combinators_same_type:
  assumes "type_of a = type_of b"
  shows "add' (Concrete a) (Concrete b) = Inr (Concrete (AddI a b))
       \<and> mul' (Concrete a) (Concrete b) = Inr (Concrete (muli_fold a b))
       \<and> floor' (Rational' a b) = Inr (Concrete (DivSI a b))
       \<and> ceiling' (Rational' a b) = Inr (Concrete (CeilDivSI a b))
       \<and> visit_term ctx dyn syms (Mod x y) (Concrete b # Concrete a # st)
           = Inr (Concrete (RemSI a b) # st)
       \<and> visit_term ctx dyn syms (StrictLessThan x y) (Concrete b # Concrete a # st)
           = Inr (Concrete (CmpI_slt a b) # st)
       \<and> visit_term ctx dyn syms (And x y) (Concrete b # Concrete a # st)
           = Inr (Concrete (AndI a b) # st)"
  using broadcast_same [OF assms]
  by (simp add: on_broadcast_def binary_concrete_def)

lemma combinators_vector_left:
  assumes "type_of a = VectorType [n] t" "type_of b = t" "\<not> is_vector_type t"
  shows "add' (Concrete a) (Concrete b) = Inr (Concrete (AddI a (Splat (VectorType [n] t) b)))
       \<and> mul' (Concrete a) (Concrete b)
           = Inr (Concrete (muli_fold a (Splat (VectorType [n] t) b)))
       \<and> floor' (Rational' a b) = Inr (Concrete (DivSI a (Splat (VectorType [n] t) b)))
       \<and> ceiling' (Rational' a b) = Inr (Concrete (CeilDivSI a (Splat (VectorType [n] t) b)))
       \<and> visit_term ctx dyn syms (Mod x y) (Concrete b # Concrete a # st)
           = Inr (Concrete (RemSI a (Splat (VectorType [n] t) b)) # st)
       \<and> visit_term ctx dyn syms (StrictLessThan x y) (Concrete b # Concrete a # st)
           = Inr (Concrete (CmpI_slt a (Splat (VectorType [n] t) b)) # st)
       \<and> visit_term ctx dyn syms (And x y) (Concrete b # Concrete a # st)
           = Inr (Concrete (AndI a (Splat (VectorType [n] t) b)) # st)"
  using broadcast_vec_scalar [OF assms, THEN conjunct1]
  by (simp add: on_broadcast_def binary_concrete_def)

lemma combinators_vector_right:
  assumes "type_of a = VectorType [n] t" "type_of b = t" "\<not> is_vector_type t"
  shows "add' (Concrete b) (Concrete a) = Inr (Concrete (AddI (Splat (VectorType [n] t) b) a))
       \<and> mul' (Concrete b) (Concrete a)
           = Inr (Concrete (muli_fold (Splat (VectorType [n] t) b) a))
       \<and> floor' (Rational' b a) = Inr (Concrete (DivSI (Splat (VectorType [n] t) b) a))
       \<and> ceiling' (Rational' b a) = Inr (Concrete (CeilDivSI (Splat (VectorType [n] t) b) a))
       \<and> visit_term ctx dyn syms (Mod x y) (Concrete a # Concrete b # st)
           = Inr (Concrete (RemSI (Splat (VectorType [n] t) b) a) # st)
       \<and> visit_term ctx dyn syms (StrictLessThan x y) (Concrete a # Concrete b # st)
           = Inr (Concrete (CmpI_slt (Splat (VectorType [n] t) b) a) # st)
       \<and> visit_term ctx dyn syms (And x y) (Concrete a # Concrete b # st)
           = Inr (Concrete (AndI (Splat (VectorType [n] t) b) a) # st)"
  using broadcast_vec_scalar [OF assms, THEN conjunct2]
  by (simp add: on_broadcast_def binary_concrete_def)

lemma combinators_width:
  assumes "type_of a = VectorType [n] t"
  shows "(\<forall>v \<in> set [AddI a (Splat (VectorType [n] t) b), muli_fold a (Splat (VectorType [n] t) b),
                     DivSI a (Splat (VectorType [n] t) b), CeilDivSI a (Splat (VectorType [n] t) b),
                     RemSI a (Splat (VectorType [n] t) b), AndI a (Splat (VectorType [n] t) b),
                     AddI (Splat (VectorType [n] t) b) a, muli_fold (Splat (VectorType [n] t) b) a,
                     DivSI (Splat (VectorType [n] t) b) a, CeilDivSI (Splat (VectorType [n] t) b) a,
                     RemSI (Splat (VectorType [n] t) b) a, AndI (Splat (VectorType [n] t) b) a].
            type_of v = VectorType [n] t)
       \<and> type_of (CmpI_slt a (Splat (VectorType [n] t) b)) = VectorType [n] (IntegerType 1)
       \<and> type_of (CmpI_slt (Splat (VectorType [n] t) b) a) = VectorType [n] (IntegerType 1)"
  using assms by (auto simp: muli_fold_def)

lemma zip_replicate_right: "length xs = n \<Longrightarrow> zip xs (replicate n y) = map (\<lambda>x. (x, y)) xs"
  by (induction xs arbitrary: n) auto

lemma zip_replicate_left: "length xs = n \<Longrightarrow> zip (replicate n y) xs = map (\<lambda>x. (y, x)) xs"
  by (induction xs arbitrary: n) auto

lemma splat_elementwise:
  assumes "eval rt a = Some (Vector xs)" "length xs = n" "eval rt b = Some (Scalar y)"
  shows "eval rt (Splat (VectorType [n] t) b) = Some (Vector (replicate n y))
       \<and> lanewise f (eval rt a) (eval rt (Splat (VectorType [n] t) b))
           = map_option Vector (those_scalars (map (\<lambda>x. f x y) xs))
       \<and> lanewise f (eval rt (Splat (VectorType [n] t) b)) (eval rt a)
           = map_option Vector (those_scalars (map (\<lambda>x. f y x) xs))"
  using assms by (simp add: zip_replicate_right zip_replicate_left o_def)

lemma combinators_mismatch:
  assumes "type_of a = VectorType [n1] t1" "type_of b = VectorType [n2] t2" "n1 \<noteq> n2"
    "\<not> is_vector_type t1" "\<not> is_vector_type t2"
  shows "add' (Concrete a) (Concrete b) = Inl (CodegenError ''Cannot broadcast'')
       \<and> mul' (Concrete a) (Concrete b) = Inl (CodegenError ''Cannot broadcast'')
       \<and> floor' (Rational' a b) = Inl (CodegenError ''Cannot broadcast'')
       \<and> ceiling' (Rational' a b) = Inl (CodegenError ''Cannot broadcast'')
       \<and> visit_term ctx dyn syms (Mod x y) (Concrete b # Concrete a # st)
           = Inl (CodegenError ''Cannot broadcast'')
       \<and> visit_term ctx dyn syms (StrictLessThan x y) (Concrete b # Concrete a # st)
           = Inl (CodegenError ''Cannot broadcast'')
       \<and> visit_term ctx dyn syms (And x y) (Concrete b # Concrete a # st)
           = Inl (CodegenError ''Cannot broadcast'')"
proof -
  have "broadcast a b = Inl (CodegenError ''Cannot broadcast'')"
    using broadcast_mismatch [OF assms(1,2) _ assms(4,5)] assms(3) by simp
  then show ?thesis
    by (simp add: on_broadcast_def binary_concrete_def)
qed

text \<open>
  C9: every binary combinator of the index compiler (the sum, the product, the two
  divisions that concretize a rational, the remainder, the comparison and the
  conjunction) applies its operation to the pair that \<^verbatim>\<open>_broadcast\<close> returns.
  Operands of the same type pass unchanged, so the result is the operation on the two
  operands themselves. With a vector of width \<open>n\<close> and a scalar of its element type,
  on either side, the scalar is splat to the vector's type and the result is the
  operation on the vector and the splat, a vector of width \<open>n\<close> (of \<open>i1\<close> for the
  comparison); the splat is the scalar in each of the \<open>n\<close> lanes, and an elementwise
  operation on the vector and the splat combines each lane of the vector with the scalar.
  Two vectors of different widths fail with the broadcast error (\<^verbatim>\<open>CodegenError\<close>,
  ``Cannot broadcast''), in every combinator.
\<close>

theorem C9_broadcast_rule:
  "(type_of a = type_of b
      \<longrightarrow> broadcast a b = Inr (a, b)
        \<and> add' (Concrete a) (Concrete b) = Inr (Concrete (AddI a b))
        \<and> mul' (Concrete a) (Concrete b) = Inr (Concrete (muli_fold a b))
        \<and> floor' (Rational' a b) = Inr (Concrete (DivSI a b))
        \<and> ceiling' (Rational' a b) = Inr (Concrete (CeilDivSI a b))
        \<and> visit_term ctx dyn syms (Mod x y) (Concrete b # Concrete a # st)
            = Inr (Concrete (RemSI a b) # st)
        \<and> visit_term ctx dyn syms (StrictLessThan x y) (Concrete b # Concrete a # st)
            = Inr (Concrete (CmpI_slt a b) # st)
        \<and> visit_term ctx dyn syms (And x y) (Concrete b # Concrete a # st)
            = Inr (Concrete (AndI a b) # st))
   \<and> (type_of a = VectorType [n] t \<and> type_of b = t \<and> \<not> is_vector_type t
      \<longrightarrow> broadcast a b = Inr (a, Splat (VectorType [n] t) b)
        \<and> broadcast b a = Inr (Splat (VectorType [n] t) b, a)
        \<and> (add' (Concrete a) (Concrete b) = Inr (Concrete (AddI a (Splat (VectorType [n] t) b)))
           \<and> mul' (Concrete a) (Concrete b)
               = Inr (Concrete (muli_fold a (Splat (VectorType [n] t) b)))
           \<and> floor' (Rational' a b) = Inr (Concrete (DivSI a (Splat (VectorType [n] t) b)))
           \<and> ceiling' (Rational' a b)
               = Inr (Concrete (CeilDivSI a (Splat (VectorType [n] t) b)))
           \<and> visit_term ctx dyn syms (Mod x y) (Concrete b # Concrete a # st)
               = Inr (Concrete (RemSI a (Splat (VectorType [n] t) b)) # st)
           \<and> visit_term ctx dyn syms (StrictLessThan x y) (Concrete b # Concrete a # st)
               = Inr (Concrete (CmpI_slt a (Splat (VectorType [n] t) b)) # st)
           \<and> visit_term ctx dyn syms (And x y) (Concrete b # Concrete a # st)
               = Inr (Concrete (AndI a (Splat (VectorType [n] t) b)) # st))
        \<and> (add' (Concrete b) (Concrete a) = Inr (Concrete (AddI (Splat (VectorType [n] t) b) a))
           \<and> mul' (Concrete b) (Concrete a)
               = Inr (Concrete (muli_fold (Splat (VectorType [n] t) b) a))
           \<and> floor' (Rational' b a) = Inr (Concrete (DivSI (Splat (VectorType [n] t) b) a))
           \<and> ceiling' (Rational' b a)
               = Inr (Concrete (CeilDivSI (Splat (VectorType [n] t) b) a))
           \<and> visit_term ctx dyn syms (Mod x y) (Concrete a # Concrete b # st)
               = Inr (Concrete (RemSI (Splat (VectorType [n] t) b) a) # st)
           \<and> visit_term ctx dyn syms (StrictLessThan x y) (Concrete a # Concrete b # st)
               = Inr (Concrete (CmpI_slt (Splat (VectorType [n] t) b) a) # st)
           \<and> visit_term ctx dyn syms (And x y) (Concrete a # Concrete b # st)
               = Inr (Concrete (AndI (Splat (VectorType [n] t) b) a) # st))
        \<and> ((\<forall>v \<in> set [AddI a (Splat (VectorType [n] t) b),
                         muli_fold a (Splat (VectorType [n] t) b),
                         DivSI a (Splat (VectorType [n] t) b),
                         CeilDivSI a (Splat (VectorType [n] t) b),
                         RemSI a (Splat (VectorType [n] t) b),
                         AndI a (Splat (VectorType [n] t) b),
                         AddI (Splat (VectorType [n] t) b) a,
                         muli_fold (Splat (VectorType [n] t) b) a,
                         DivSI (Splat (VectorType [n] t) b) a,
                         CeilDivSI (Splat (VectorType [n] t) b) a,
                         RemSI (Splat (VectorType [n] t) b) a,
                         AndI (Splat (VectorType [n] t) b) a].
                type_of v = VectorType [n] t)
           \<and> type_of (CmpI_slt a (Splat (VectorType [n] t) b)) = VectorType [n] (IntegerType 1)
           \<and> type_of (CmpI_slt (Splat (VectorType [n] t) b) a)
               = VectorType [n] (IntegerType 1)))
   \<and> (eval rt a = Some (Vector xs) \<and> length xs = n \<and> eval rt b = Some (Scalar sv)
      \<longrightarrow> eval rt (Splat (VectorType [n] t) b) = Some (Vector (replicate n sv))
        \<and> lanewise f (eval rt a) (eval rt (Splat (VectorType [n] t) b))
            = map_option Vector (those_scalars (map (\<lambda>x. f x sv) xs))
        \<and> lanewise f (eval rt (Splat (VectorType [n] t) b)) (eval rt a)
            = map_option Vector (those_scalars (map (\<lambda>x. f sv x) xs)))
   \<and> (type_of a = VectorType [n1] t1 \<and> type_of b = VectorType [n2] t2 \<and> n1 \<noteq> n2
        \<and> \<not> is_vector_type t1 \<and> \<not> is_vector_type t2
      \<longrightarrow> broadcast a b = Inl (CodegenError ''Cannot broadcast'')
        \<and> add' (Concrete a) (Concrete b) = Inl (CodegenError ''Cannot broadcast'')
        \<and> mul' (Concrete a) (Concrete b) = Inl (CodegenError ''Cannot broadcast'')
        \<and> floor' (Rational' a b) = Inl (CodegenError ''Cannot broadcast'')
        \<and> ceiling' (Rational' a b) = Inl (CodegenError ''Cannot broadcast'')
        \<and> visit_term ctx dyn syms (Mod x y) (Concrete b # Concrete a # st)
            = Inl (CodegenError ''Cannot broadcast'')
        \<and> visit_term ctx dyn syms (StrictLessThan x y) (Concrete b # Concrete a # st)
            = Inl (CodegenError ''Cannot broadcast'')
        \<and> visit_term ctx dyn syms (And x y) (Concrete b # Concrete a # st)
            = Inl (CodegenError ''Cannot broadcast''))"
proof -
  have same: "type_of a = type_of b
      \<longrightarrow> broadcast a b = Inr (a, b)
        \<and> add' (Concrete a) (Concrete b) = Inr (Concrete (AddI a b))
        \<and> mul' (Concrete a) (Concrete b) = Inr (Concrete (muli_fold a b))
        \<and> floor' (Rational' a b) = Inr (Concrete (DivSI a b))
        \<and> ceiling' (Rational' a b) = Inr (Concrete (CeilDivSI a b))
        \<and> visit_term ctx dyn syms (Mod x y) (Concrete b # Concrete a # st)
            = Inr (Concrete (RemSI a b) # st)
        \<and> visit_term ctx dyn syms (StrictLessThan x y) (Concrete b # Concrete a # st)
            = Inr (Concrete (CmpI_slt a b) # st)
        \<and> visit_term ctx dyn syms (And x y) (Concrete b # Concrete a # st)
            = Inr (Concrete (AndI a b) # st)"
    using broadcast_same [of a b] combinators_same_type [of a b ctx dyn syms x y st]
    by blast
  have vs: "type_of a = VectorType [n] t \<and> type_of b = t \<and> \<not> is_vector_type t
      \<longrightarrow> broadcast a b = Inr (a, Splat (VectorType [n] t) b)
        \<and> broadcast b a = Inr (Splat (VectorType [n] t) b, a)
        \<and> (add' (Concrete a) (Concrete b) = Inr (Concrete (AddI a (Splat (VectorType [n] t) b)))
           \<and> mul' (Concrete a) (Concrete b)
               = Inr (Concrete (muli_fold a (Splat (VectorType [n] t) b)))
           \<and> floor' (Rational' a b) = Inr (Concrete (DivSI a (Splat (VectorType [n] t) b)))
           \<and> ceiling' (Rational' a b)
               = Inr (Concrete (CeilDivSI a (Splat (VectorType [n] t) b)))
           \<and> visit_term ctx dyn syms (Mod x y) (Concrete b # Concrete a # st)
               = Inr (Concrete (RemSI a (Splat (VectorType [n] t) b)) # st)
           \<and> visit_term ctx dyn syms (StrictLessThan x y) (Concrete b # Concrete a # st)
               = Inr (Concrete (CmpI_slt a (Splat (VectorType [n] t) b)) # st)
           \<and> visit_term ctx dyn syms (And x y) (Concrete b # Concrete a # st)
               = Inr (Concrete (AndI a (Splat (VectorType [n] t) b)) # st))
        \<and> (add' (Concrete b) (Concrete a) = Inr (Concrete (AddI (Splat (VectorType [n] t) b) a))
           \<and> mul' (Concrete b) (Concrete a)
               = Inr (Concrete (muli_fold (Splat (VectorType [n] t) b) a))
           \<and> floor' (Rational' b a) = Inr (Concrete (DivSI (Splat (VectorType [n] t) b) a))
           \<and> ceiling' (Rational' b a)
               = Inr (Concrete (CeilDivSI (Splat (VectorType [n] t) b) a))
           \<and> visit_term ctx dyn syms (Mod x y) (Concrete a # Concrete b # st)
               = Inr (Concrete (RemSI (Splat (VectorType [n] t) b) a) # st)
           \<and> visit_term ctx dyn syms (StrictLessThan x y) (Concrete a # Concrete b # st)
               = Inr (Concrete (CmpI_slt (Splat (VectorType [n] t) b) a) # st)
           \<and> visit_term ctx dyn syms (And x y) (Concrete a # Concrete b # st)
               = Inr (Concrete (AndI (Splat (VectorType [n] t) b) a) # st))
        \<and> ((\<forall>v \<in> set [AddI a (Splat (VectorType [n] t) b),
                         muli_fold a (Splat (VectorType [n] t) b),
                         DivSI a (Splat (VectorType [n] t) b),
                         CeilDivSI a (Splat (VectorType [n] t) b),
                         RemSI a (Splat (VectorType [n] t) b),
                         AndI a (Splat (VectorType [n] t) b),
                         AddI (Splat (VectorType [n] t) b) a,
                         muli_fold (Splat (VectorType [n] t) b) a,
                         DivSI (Splat (VectorType [n] t) b) a,
                         CeilDivSI (Splat (VectorType [n] t) b) a,
                         RemSI (Splat (VectorType [n] t) b) a,
                         AndI (Splat (VectorType [n] t) b) a].
                type_of v = VectorType [n] t)
           \<and> type_of (CmpI_slt a (Splat (VectorType [n] t) b)) = VectorType [n] (IntegerType 1)
           \<and> type_of (CmpI_slt (Splat (VectorType [n] t) b) a)
               = VectorType [n] (IntegerType 1))"
  proof
    assume h: "type_of a = VectorType [n] t \<and> type_of b = t \<and> \<not> is_vector_type t"
    then have h1: "type_of a = VectorType [n] t" and h2: "type_of b = t"
      and h3: "\<not> is_vector_type t"
      by blast+
    from broadcast_vec_scalar [OF h1 h2 h3]
      combinators_vector_left [OF h1 h2 h3, of ctx dyn syms x y st]
      combinators_vector_right [OF h1 h2 h3, of ctx dyn syms x y st]
      combinators_width [OF h1, of b]
    show "broadcast a b = Inr (a, Splat (VectorType [n] t) b)
        \<and> broadcast b a = Inr (Splat (VectorType [n] t) b, a)
        \<and> (add' (Concrete a) (Concrete b) = Inr (Concrete (AddI a (Splat (VectorType [n] t) b)))
           \<and> mul' (Concrete a) (Concrete b)
               = Inr (Concrete (muli_fold a (Splat (VectorType [n] t) b)))
           \<and> floor' (Rational' a b) = Inr (Concrete (DivSI a (Splat (VectorType [n] t) b)))
           \<and> ceiling' (Rational' a b)
               = Inr (Concrete (CeilDivSI a (Splat (VectorType [n] t) b)))
           \<and> visit_term ctx dyn syms (Mod x y) (Concrete b # Concrete a # st)
               = Inr (Concrete (RemSI a (Splat (VectorType [n] t) b)) # st)
           \<and> visit_term ctx dyn syms (StrictLessThan x y) (Concrete b # Concrete a # st)
               = Inr (Concrete (CmpI_slt a (Splat (VectorType [n] t) b)) # st)
           \<and> visit_term ctx dyn syms (And x y) (Concrete b # Concrete a # st)
               = Inr (Concrete (AndI a (Splat (VectorType [n] t) b)) # st))
        \<and> (add' (Concrete b) (Concrete a) = Inr (Concrete (AddI (Splat (VectorType [n] t) b) a))
           \<and> mul' (Concrete b) (Concrete a)
               = Inr (Concrete (muli_fold (Splat (VectorType [n] t) b) a))
           \<and> floor' (Rational' b a) = Inr (Concrete (DivSI (Splat (VectorType [n] t) b) a))
           \<and> ceiling' (Rational' b a)
               = Inr (Concrete (CeilDivSI (Splat (VectorType [n] t) b) a))
           \<and> visit_term ctx dyn syms (Mod x y) (Concrete a # Concrete b # st)
               = Inr (Concrete (RemSI (Splat (VectorType [n] t) b) a) # st)
           \<and> visit_term ctx dyn syms (StrictLessThan x y) (Concrete a # Concrete b # st)
               = Inr (Concrete (CmpI_slt (Splat (VectorType [n] t) b) a) # st)
           \<and> visit_term ctx dyn syms (And x y) (Concrete a # Concrete b # st)
               = Inr (Concrete (AndI (Splat (VectorType [n] t) b) a) # st))
        \<and> ((\<forall>v \<in> set [AddI a (Splat (VectorType [n] t) b),
                         muli_fold a (Splat (VectorType [n] t) b),
                         DivSI a (Splat (VectorType [n] t) b),
                         CeilDivSI a (Splat (VectorType [n] t) b),
                         RemSI a (Splat (VectorType [n] t) b),
                         AndI a (Splat (VectorType [n] t) b),
                         AddI (Splat (VectorType [n] t) b) a,
                         muli_fold (Splat (VectorType [n] t) b) a,
                         DivSI (Splat (VectorType [n] t) b) a,
                         CeilDivSI (Splat (VectorType [n] t) b) a,
                         RemSI (Splat (VectorType [n] t) b) a,
                         AndI (Splat (VectorType [n] t) b) a].
                type_of v = VectorType [n] t)
           \<and> type_of (CmpI_slt a (Splat (VectorType [n] t) b)) = VectorType [n] (IntegerType 1)
           \<and> type_of (CmpI_slt (Splat (VectorType [n] t) b) a)
               = VectorType [n] (IntegerType 1))"
      by (intro conjI) (erule conjE | assumption)+
  qed
  have el: "eval rt a = Some (Vector xs) \<and> length xs = n \<and> eval rt b = Some (Scalar sv)
      \<longrightarrow> eval rt (Splat (VectorType [n] t) b) = Some (Vector (replicate n sv))
        \<and> lanewise f (eval rt a) (eval rt (Splat (VectorType [n] t) b))
            = map_option Vector (those_scalars (map (\<lambda>x. f x sv) xs))
        \<and> lanewise f (eval rt (Splat (VectorType [n] t) b)) (eval rt a)
            = map_option Vector (those_scalars (map (\<lambda>x. f sv x) xs))"
    using splat_elementwise [of rt a xs n b sv t f] by blast
  have mm: "type_of a = VectorType [n1] t1 \<and> type_of b = VectorType [n2] t2 \<and> n1 \<noteq> n2
        \<and> \<not> is_vector_type t1 \<and> \<not> is_vector_type t2
      \<longrightarrow> broadcast a b = Inl (CodegenError ''Cannot broadcast'')
        \<and> add' (Concrete a) (Concrete b) = Inl (CodegenError ''Cannot broadcast'')
        \<and> mul' (Concrete a) (Concrete b) = Inl (CodegenError ''Cannot broadcast'')
        \<and> floor' (Rational' a b) = Inl (CodegenError ''Cannot broadcast'')
        \<and> ceiling' (Rational' a b) = Inl (CodegenError ''Cannot broadcast'')
        \<and> visit_term ctx dyn syms (Mod x y) (Concrete b # Concrete a # st)
            = Inl (CodegenError ''Cannot broadcast'')
        \<and> visit_term ctx dyn syms (StrictLessThan x y) (Concrete b # Concrete a # st)
            = Inl (CodegenError ''Cannot broadcast'')
        \<and> visit_term ctx dyn syms (And x y) (Concrete b # Concrete a # st)
            = Inl (CodegenError ''Cannot broadcast'')"
    using broadcast_mismatch [of a "[n1]" t1 b "[n2]" t2]
      combinators_mismatch [of a n1 t1 b n2 t2 ctx dyn syms x y st]
    by simp
  from same vs el mm show ?thesis by (intro conjI)
qed

text \<open>
  The rule at two thread ids, at the lane vector of four lanes with a thread id, and at the
  lane vectors of four and of two lanes.
\<close>

theorem C9_broadcast_rule_witness:
  "add' (Concrete (ThreadId 0)) (Concrete (ThreadId 1)) = Inr (Concrete (AddI (ThreadId 0) (ThreadId 1)))
   \<and> broadcast (get_const (TupleVal [0, 1, 2, 3])) (ThreadId 0)
       = Inr (get_const (TupleVal [0, 1, 2, 3]), Splat (VectorType [4] IndexType) (ThreadId 0))
   \<and> add' (Concrete (get_const (TupleVal [0, 1, 2, 3]))) (Concrete (ThreadId 0))
       = Inr (Concrete (AddI (get_const (TupleVal [0, 1, 2, 3]))
                             (Splat (VectorType [4] IndexType) (ThreadId 0))))
   \<and> add' (Concrete (ThreadId 0)) (Concrete (get_const (TupleVal [0, 1, 2, 3])))
       = Inr (Concrete (AddI (Splat (VectorType [4] IndexType) (ThreadId 0))
                             (get_const (TupleVal [0, 1, 2, 3]))))
   \<and> type_of (AddI (get_const (TupleVal [0, 1, 2, 3]))
                    (Splat (VectorType [4] IndexType) (ThreadId 0))) = VectorType [4] IndexType
   \<and> (\<forall>rt. eval rt (AddI (get_const (TupleVal [0, 1, 2, 3]))
                          (Splat (VectorType [4] IndexType) (ThreadId 0)))
             = Some (Vector [IndexVal (0 + rt_thread_id rt 0), IndexVal (1 + rt_thread_id rt 0),
                             IndexVal (2 + rt_thread_id rt 0), IndexVal (3 + rt_thread_id rt 0)]))
   \<and> broadcast (get_const (TupleVal [0, 1, 2, 3])) (get_const (TupleVal [0, 1]))
       = Inl (CodegenError ''Cannot broadcast'')
   \<and> add' (Concrete (get_const (TupleVal [0, 1, 2, 3]))) (Concrete (get_const (TupleVal [0, 1])))
       = Inl (CodegenError ''Cannot broadcast'')"
proof -
  let ?v4 = "get_const (TupleVal [0, 1, 2, 3])" and ?v2 = "get_const (TupleVal [0, 1])"
  have t4: "type_of ?v4 = VectorType [4] IndexType" and t2: "type_of ?v2 = VectorType [2] IndexType"
    by (simp_all add: get_const_def)
  have c1: "add' (Concrete (ThreadId 0)) (Concrete (ThreadId 1))
              = Inr (Concrete (AddI (ThreadId 0) (ThreadId 1)))"
    using C9_broadcast_rule [where a = "ThreadId 0" and b = "ThreadId 1", THEN conjunct1]
    by simp
  note T2 = C9_broadcast_rule
              [where a = ?v4 and b = "ThreadId 0" and n = 4 and t = IndexType,
               THEN conjunct2, THEN conjunct1]
  have c2: "broadcast ?v4 (ThreadId 0) = Inr (?v4, Splat (VectorType [4] IndexType) (ThreadId 0))"
    using T2 t4 by simp
  have c3: "add' (Concrete ?v4) (Concrete (ThreadId 0))
              = Inr (Concrete (AddI ?v4 (Splat (VectorType [4] IndexType) (ThreadId 0))))"
    using T2 t4 by simp
  have c4: "add' (Concrete (ThreadId 0)) (Concrete ?v4)
              = Inr (Concrete (AddI (Splat (VectorType [4] IndexType) (ThreadId 0)) ?v4))"
    using T2 t4 by simp
  have c5: "type_of (AddI ?v4 (Splat (VectorType [4] IndexType) (ThreadId 0)))
              = VectorType [4] IndexType"
    using T2 t4 by simp
  have e4: "eval rt ?v4 = Some (Vector [IndexVal 0, IndexVal 1, IndexVal 2, IndexVal 3])" for rt
    by (simp add: get_const_def)
  have c6: "eval rt (AddI ?v4 (Splat (VectorType [4] IndexType) (ThreadId 0)))
              = Some (Vector [IndexVal (0 + rt_thread_id rt 0), IndexVal (1 + rt_thread_id rt 0),
                              IndexVal (2 + rt_thread_id rt 0), IndexVal (3 + rt_thread_id rt 0)])"
    for rt
    using C9_broadcast_rule
            [where a = ?v4 and b = "ThreadId 0" and n = 4 and t = IndexType and rt = rt
               and xs = "[IndexVal 0, IndexVal 1, IndexVal 2, IndexVal 3]"
               and sv = "IndexVal (rt_thread_id rt 0)"
               and f = "scalar_op (\<lambda>x y. Some (IndexVal (x + y)))",
             THEN conjunct2, THEN conjunct2, THEN conjunct1] e4 [of rt]
    by simp
  note T3 = C9_broadcast_rule
              [where a = ?v4 and b = ?v2 and ?n1.0 = 4 and ?n2.0 = 2 and ?t1.0 = IndexType
                 and ?t2.0 = IndexType, THEN conjunct2, THEN conjunct2, THEN conjunct2]
  have c7: "broadcast ?v4 ?v2 = Inl (CodegenError ''Cannot broadcast'')"
    using T3 t4 t2 by simp
  have c8: "add' (Concrete ?v4) (Concrete ?v2) = Inl (CodegenError ''Cannot broadcast'')"
    using T3 t4 t2 by simp
  show ?thesis using c1 c2 c3 c4 c5 c6 c7 c8 by blast
qed

subsection \<open>The remainder\<close>

lemma sint_remsi:
  fixes x y :: index
  assumes "y \<noteq> 0"
  shows "sint (word_of_int (sint x smod sint y) :: index) = sint x smod sint y"
proof -
  have y0: "sint y \<noteq> 0"
    using assms by (simp add: signed_eq_0_iff)
  have ry: "- (2 ^ 63) \<le> sint y" "sint y < 2 ^ 63"
    using sint_ge [of y] sint_lt [of y] by simp_all
  have "sint x smod sint y \<in> {- \<bar>sint y\<bar> + 1 .. \<bar>sint y\<bar> - 1}"
    using smod_int_range [OF y0] .
  then have "- (2 ^ 63) \<le> sint x smod sint y" "sint x smod sint y < 2 ^ 63"
    using ry by auto
  then show ?thesis
    by (simp add: sint_sbintrunc' signed_take_bit_int_eq_self)
qed

lemma smod_sign:
  fixes a b :: int
  shows "a < 0 \<Longrightarrow> a smod b \<le> 0" and "0 \<le> a \<Longrightarrow> 0 \<le> a smod b"
proof -
  show "a < 0 \<Longrightarrow> a smod b \<le> 0"
    using smod_int_compares(4) [of a b] smod_int_compares(7) [of a b]
    by (cases "b = 0"; cases "0 < b") (simp_all add: smod_int_alt_def)
  show "0 \<le> a \<Longrightarrow> 0 \<le> a smod b"
    using smod_int_compares(2) [of a b] smod_int_compares(6) [of a b]
    by (cases "b = 0"; cases "0 < b") (simp_all add: smod_int_alt_def sgn_if)
qed

lemma mod_lowering:
  "visit_term ctx dyn syms (Mod a b) (Concrete r # Concrete l # st)
     = (case broadcast l r of
          Inl e \<Rightarrow> Inl e
        | Inr (l', r') \<Rightarrow> Inr (Concrete (RemSI l' r') # st))"
  by (simp add: binary_concrete_def on_broadcast_def split: sum.splits)

lemma mod_integers:
  "gen_sympy_index ctx dyn (Mod (Integer p) (Integer q)) syms
     = Inr (RemSI (index_constant p) (index_constant q))"
  by (simp add: gen_sympy_index_def Let_def subs_Mod subs_Integer binary_concrete_def
        on_broadcast_def broadcast_def get_const_def index_constant_def)

lemma remsi_semantics:
  assumes "idx_val rt l x" "idx_val rt r y" "y \<noteq> 0"
  shows "\<exists>z. eval rt (RemSI l r) = Some (Scalar (IndexVal z))
           \<and> sint z = sint x smod sint y
           \<and> sint z = sint x - sint y * (sint x sdiv sint y)
           \<and> (sint x < 0 \<longrightarrow> sint z \<le> 0) \<and> (0 \<le> sint x \<longrightarrow> 0 \<le> sint z)"
proof -
  let ?z = "word_of_int (sint x smod sint y) :: index"
  have e: "eval rt (RemSI l r) = Some (Scalar (IndexVal ?z))"
    using assms by (simp add: idx_val_def remsi_def)
  have s: "sint ?z = sint x smod sint y"
    by (rule sint_remsi [OF assms(3)])
  show ?thesis
    using e s smod_sign [of "sint x" "sint y"] minus_mult_sdiv_eq_smod [of "sint x" "sint y"]
    by auto
qed

text \<open>
  C10: a \<open>Mod\<close> node with two concrete operands lowers to the signed remainder
  (\<^verbatim>\<open>arith.remsi\<close>) of the broadcast operands. On index scalars with a nonzero divisor
  its value is the remainder of the division that truncates towards zero,
  \<open>x - y\<cdot>(x sdiv y)\<close>, so it is zero or negative for a negative left operand and zero or
  positive otherwise: \<open>-7 mod 2\<close> lowers to code that computes \<open>-1\<close>, where the
  mathematical modulus is \<open>1\<close>.
\<close>

theorem C10_mod_is_signed_remainder:
  "visit_term ctx dyn syms (Mod a b) (Concrete r # Concrete l # st)
     = (case broadcast l r of
          Inl e \<Rightarrow> Inl e
        | Inr (l', r') \<Rightarrow> Inr (Concrete (RemSI l' r') # st))
   \<and> gen_sympy_index ctx dyn (Mod (Integer p) (Integer q)) syms
       = Inr (RemSI (index_constant p) (index_constant q))
   \<and> (idx_val rt l x \<and> idx_val rt r y \<and> y \<noteq> 0
      \<longrightarrow> (\<exists>z. eval rt (RemSI l r) = Some (Scalar (IndexVal z))
              \<and> sint z = sint x smod sint y
              \<and> sint z = sint x - sint y * (sint x sdiv sint y)
              \<and> (sint x < 0 \<longrightarrow> sint z \<le> 0) \<and> (0 \<le> sint x \<longrightarrow> 0 \<le> sint z)))
   \<and> eval rt (RemSI (index_constant (- 7)) (index_constant 2)) = Some (Scalar (IndexVal (- 1)))
   \<and> (- 7 :: int) mod 2 = 1"
  using mod_lowering [of ctx dyn syms a b r l st] mod_integers [of ctx dyn p q syms]
    remsi_semantics [of rt l x r y]
  by (simp add: index_constant_def remsi_def smod_int_alt_def)

theorem C10_mod_is_signed_remainder_witness:
  "\<forall>rt. \<exists>z. eval rt (RemSI (index_constant (- 7)) (index_constant 2)) = Some (Scalar (IndexVal z))
           \<and> sint z = - 1 \<and> sint z \<le> 0"
proof
  fix rt
  have iv: "idx_val rt (index_constant (- 7)) (- 7)" "idx_val rt (index_constant 2) 2"
    by (simp_all add: idx_val_def index_constant_def)
  have sm: "sint (- 7 :: index) smod sint (2 :: index) = - 1"
    by (simp add: smod_int_alt_def)
  from C10_mod_is_signed_remainder
         [where rt = rt and l = "index_constant (- 7)" and x = "- 7"
            and r = "index_constant 2" and y = 2,
          THEN conjunct2, THEN conjunct2, THEN conjunct1] iv
  obtain z where "eval rt (RemSI (index_constant (- 7)) (index_constant 2))
                    = Some (Scalar (IndexVal z))"
    and "sint z = sint (- 7 :: index) smod sint (2 :: index)"
    by auto
  then show "\<exists>z. eval rt (RemSI (index_constant (- 7)) (index_constant 2))
                   = Some (Scalar (IndexVal z))
               \<and> sint z = - 1 \<and> sint z \<le> 0"
    using sm by auto
qed

section \<open>Properties of the memory access synthesizer\<close>

subsection \<open>Mappings\<close>

lemma construct_read_requires_output_identity:
  "\<not> is_output_identity mapping \<Longrightarrow>
   construct_gather_scatter_indices ext e shape idx mapping k True t
     = Inl (AssertionError ''non-identity output mapping is not supported yet'')"
  by (simp add: construct_gather_scatter_indices_def gather_scatter_indices_with_def
        mapped_indices_def)

lemma construct_write_requires_input_identity:
  "\<not> is_input_identity mapping \<Longrightarrow>
   construct_gather_scatter_indices ext e shape idx mapping k False t
     = Inl (AssertionError ''non-identity input mapping is not supported yet'')"
  by (simp add: construct_gather_scatter_indices_def gather_scatter_indices_with_def
        mapped_indices_def)

lemma read_requires_output_identity:
  assumes "args n = [ArgNode m, ArgInt k, ArgMapping mp, dep]" and "0 < k"
    and "cast_kernel_buffer e (ArgNode m) = Inr ((src, ty), e1)"
    and "node_index n = Some idx"
    and "get_constant_attr 0 (element_type ty) = Inr z"
    and "\<not> is_output_identity mp"
  shows "handle_read ext r e n = Inl (AssertionError ''non-identity output mapping is not supported yet'')"
proof -
  have lanes: "[0 ..< nat k] = 0 # [1 ..< nat k]"
    using assms(2) by (simp add: upt_conv_Cons)
  have ni: "\<not> is_identity_mapping mp (Some (symbolic_shape m)) None"
    using assms(6) by (simp add: is_identity_mapping_def is_identity_def)
  show ?thesis
    using assms ni
    by (simp add: handle_read_def Let_def lanes construct_read_requires_output_identity)
qed

lemma write_requires_input_identity:
  assumes "args n = [ArgNode reg, ArgNode mem, ArgInt k, ArgMapping mp]"
    and "cast_kernel_buffer e (ArgNode mem) = Inr ((dst, ty), e1)"
    and "cast_vector e1 (ArgNode reg) (Some (element_type ty)) = Inr (v, e2)"
    and "map int (vector_shape (type_of v)) = [k]"
    and "node_index n = Some idx"
    and "\<not> is_input_identity mp"
  shows "handle_write ext r e n = Inl (AssertionError ''non-identity input mapping is not supported yet'')"
proof -
  have ni: "\<not> is_identity_mapping mp (Some (symbolic_shape reg)) (Some (symbolic_shape mem))"
    using assms(6) by (simp add: is_identity_mapping_def is_identity_def)
  show ?thesis
    using assms ni
    by (simp add: handle_write_def Let_def construct_write_requires_input_identity)
qed

text \<open>
  C1, as stated: a read needs a mapping that is the identity on its input side, a write one
  that is the identity on its output side, and a mapping that is not fails. It fails both
  ways: the read whose mapping permutes the input side (and is the identity on the output
  side) is lowered, to gathers bound to the read node; the write whose mapping permutes the
  output side (and is the identity on the input side) is lowered, to one scatter.
\<close>

theorem C1_required_side_counterexample:
  "\<not> is_input_identity transposed_read_mapping
   \<and> (case emit 1 (OP_HANDLERS unbounded_externals) (read_emitter transposed_read_mapping) None of
        Inl e \<Rightarrow> False
      | Inr e \<Rightarrow> map_of (node_values e) (nid (read_node transposed_read_mapping)) \<noteq> None)
   \<and> \<not> is_output_identity output_remap_mapping
   \<and> (case emit 1 (OP_HANDLERS unbounded_externals) (write_emitter output_remap_mapping) None of
        Inl e \<Rightarrow> False
      | Inr e \<Rightarrow> length (ops e) = 1)"
  by code_simp

text \<open>
  C1, amended: the required side is the other one. For every read lowered with a
  non-identity mapping, the mapping must be the identity on its output side, and for every
  write, on its input side: the offset synthesizer fails (a failed assertion, ``non-identity
  output mapping is not supported yet'' for a read, ``non-identity input mapping is not
  supported yet'' for a write) when it is not, and so do the read handler (with at least
  one element per thread) and the write handler. A mapping that is the identity on
  neither side is therefore lowered by neither.
\<close>

theorem C1_mapping_identity_side:
  "(\<not> is_output_identity mapping
      \<longrightarrow> construct_gather_scatter_indices ext e shape idx mapping k True t
            = Inl (AssertionError ''non-identity output mapping is not supported yet''))
   \<and> (\<not> is_input_identity mapping
      \<longrightarrow> construct_gather_scatter_indices ext e shape idx mapping k False t
            = Inl (AssertionError ''non-identity input mapping is not supported yet''))
   \<and> (args rn = [ArgNode m, ArgInt rk, ArgMapping mapping, dep] \<and> 0 < rk
        \<and> cast_kernel_buffer e (ArgNode m) = Inr ((src, ty), e1)
        \<and> node_index rn = Some ridx
        \<and> get_constant_attr 0 (element_type ty) = Inr z
        \<and> \<not> is_output_identity mapping
      \<longrightarrow> handle_read ext r e rn
            = Inl (AssertionError ''non-identity output mapping is not supported yet''))
   \<and> (args wn = [ArgNode reg, ArgNode mem, ArgInt wk, ArgMapping mapping]
        \<and> cast_kernel_buffer e (ArgNode mem) = Inr ((dst, wty), e2)
        \<and> cast_vector e2 (ArgNode reg) (Some (element_type wty)) = Inr (v, e3)
        \<and> map int (vector_shape (type_of v)) = [wk]
        \<and> node_index wn = Some widx
        \<and> \<not> is_input_identity mapping
      \<longrightarrow> handle_write ext r e wn
            = Inl (AssertionError ''non-identity input mapping is not supported yet''))"
proof (intro conjI impI)
  assume "\<not> is_output_identity mapping"
  then show "construct_gather_scatter_indices ext e shape idx mapping k True t
               = Inl (AssertionError ''non-identity output mapping is not supported yet'')"
    by (rule construct_read_requires_output_identity)
next
  assume "\<not> is_input_identity mapping"
  then show "construct_gather_scatter_indices ext e shape idx mapping k False t
               = Inl (AssertionError ''non-identity input mapping is not supported yet'')"
    by (rule construct_write_requires_input_identity)
next
  assume h: "args rn = [ArgNode m, ArgInt rk, ArgMapping mapping, dep] \<and> 0 < rk
        \<and> cast_kernel_buffer e (ArgNode m) = Inr ((src, ty), e1)
        \<and> node_index rn = Some ridx
        \<and> get_constant_attr 0 (element_type ty) = Inr z
        \<and> \<not> is_output_identity mapping"
  show "handle_read ext r e rn
          = Inl (AssertionError ''non-identity output mapping is not supported yet'')"
    by (rule read_requires_output_identity [of rn m rk mapping dep e src ty e1 ridx z])
       (use h in blast)+
next
  assume h: "args wn = [ArgNode reg, ArgNode mem, ArgInt wk, ArgMapping mapping]
        \<and> cast_kernel_buffer e (ArgNode mem) = Inr ((dst, wty), e2)
        \<and> cast_vector e2 (ArgNode reg) (Some (element_type wty)) = Inr (v, e3)
        \<and> map int (vector_shape (type_of v)) = [wk]
        \<and> node_index wn = Some widx
        \<and> \<not> is_input_identity mapping"
  show "handle_write ext r e wn
          = Inl (AssertionError ''non-identity input mapping is not supported yet'')"
    by (rule write_requires_input_identity [of wn reg mem wk mapping e dst wty e2 v e3 widx])
       (use h in blast)+
qed

theorem C1_mapping_identity_side_witness:
  "construct_gather_scatter_indices unbounded_externals (read_emitter output_remap_mapping)
      [dim_M, dim_N] read_index output_remap_mapping 1 True 0
     = Inl (AssertionError ''non-identity output mapping is not supported yet'')
   \<and> construct_gather_scatter_indices unbounded_externals (write_emitter transposed_read_mapping)
      [dim_N, dim_M] write_index transposed_read_mapping 2 False 0
     = Inl (AssertionError ''non-identity input mapping is not supported yet'')
   \<and> handle_read unbounded_externals (emit_graph 0 (OP_HANDLERS unbounded_externals))
        (read_emitter output_remap_mapping) (read_node output_remap_mapping)
     = Inl (AssertionError ''non-identity output mapping is not supported yet'')
   \<and> handle_write unbounded_externals (emit_graph 0 (OP_HANDLERS unbounded_externals))
        (write_emitter transposed_read_mapping) (write_node transposed_read_mapping)
     = Inl (AssertionError ''non-identity input mapping is not supported yet'')"
proof -
  let ?r = "emit_graph 0 (OP_HANDLERS unbounded_externals)"
  have no: "\<not> is_output_identity output_remap_mapping"
    and ni: "\<not> is_input_identity transposed_read_mapping"
    by code_simp+
  have c1: "construct_gather_scatter_indices unbounded_externals
              (read_emitter output_remap_mapping) [dim_M, dim_N] read_index
              output_remap_mapping 1 True 0
            = Inl (AssertionError ''non-identity output mapping is not supported yet'')"
    using C1_mapping_identity_side
            [where mapping = output_remap_mapping and ext = unbounded_externals
               and e = "read_emitter output_remap_mapping", THEN conjunct1] no
    by simp
  have c2: "construct_gather_scatter_indices unbounded_externals
              (write_emitter transposed_read_mapping) [dim_N, dim_M] write_index
              transposed_read_mapping 2 False 0
            = Inl (AssertionError ''non-identity input mapping is not supported yet'')"
    using C1_mapping_identity_side
            [where mapping = transposed_read_mapping and ext = unbounded_externals
               and e = "write_emitter transposed_read_mapping",
             THEN conjunct2, THEN conjunct1] ni
    by simp
  obtain e1 where k1: "cast_kernel_buffer (read_emitter output_remap_mapping) (ArgNode mem_a)
                         = Inr ((BlockArgument 0 f16_memref, f16_memref), e1)"
    by (simp add: cast_kernel_buffer_def cast_py_value_def lookup_node_values_def
          read_emitter_def new_WaveEmitter_def read_resolve_def mem_a_def f16_memref_def)
  have c3: "handle_read unbounded_externals ?r (read_emitter output_remap_mapping)
              (read_node output_remap_mapping)
            = Inl (AssertionError ''non-identity output mapping is not supported yet'')"
    using C1_mapping_identity_side
            [where mapping = output_remap_mapping and ext = unbounded_externals
               and e = "read_emitter output_remap_mapping"
               and rn = "read_node output_remap_mapping" and m = mem_a and rk = 2
               and dep = ArgNone and src = "BlockArgument 0 f16_memref" and ty = f16_memref
               and ?e1.0 = e1 and ridx = read_index
               and z = "FloatAttr (FloatType 16) 0" and r = ?r,
             THEN conjunct2, THEN conjunct2, THEN conjunct1] no k1
    by (simp add: read_node_def f16_memref_def get_constant_attr_def)
  obtain e2 where k2: "cast_kernel_buffer (write_emitter transposed_read_mapping) (ArgNode mem_b)
                         = Inr ((BlockArgument 0 f16_memref_b, f16_memref_b), e2)"
    by (simp add: cast_kernel_buffer_def cast_py_value_def lookup_node_values_def
          write_emitter_def new_WaveEmitter_def write_resolve_def mem_b_def f16_memref_b_def)
  obtain e3 where k3: "cast_vector e2 (ArgNode reg_c) (Some (FloatType 16))
                         = Inr (BlockArgument 1 (VectorType [2] (FloatType 16)), e3)"
    using k2
    by (auto simp: cast_kernel_buffer_def cast_vector_def cast_py_value_def
          lookup_node_values_def write_emitter_def new_WaveEmitter_def write_resolve_def
          mem_b_def reg_c_def f16_memref_b_def)
  have c4: "handle_write unbounded_externals ?r (write_emitter transposed_read_mapping)
              (write_node transposed_read_mapping)
            = Inl (AssertionError ''non-identity input mapping is not supported yet'')"
    using C1_mapping_identity_side
            [where mapping = transposed_read_mapping and ext = unbounded_externals
               and e = "write_emitter transposed_read_mapping"
               and wn = "write_node transposed_read_mapping" and reg = reg_c and mem = mem_b
               and wk = 2 and dst = "BlockArgument 0 f16_memref_b" and wty = f16_memref_b
               and ?e2.0 = e2 and v = "BlockArgument 1 (VectorType [2] (FloatType 16))"
               and ?e3.0 = e3 and widx = write_index and r = ?r,
             THEN conjunct2, THEN conjunct2, THEN conjunct2] ni k2 k3
    by (simp add: write_node_def f16_memref_b_def)
  show ?thesis using c1 c2 c3 c4 by blast
qed

subsection \<open>The two branches of the offset synthesizer\<close>





















end
